theory Spec2Isabelle
  imports Complex_Main
begin

section \<open>Data of mercury.c\<close>

text \<open>
  The program is \<^verbatim>\<open>src/mercury.c\<close>: the option loop and the validation of \<^verbatim>\<open>main\<close>,
  \<^verbatim>\<open>usage\<close>, \<^verbatim>\<open>open_and_dispatch\<close>, \<^verbatim>\<open>pcap_reader_thread_context_init_from_config\<close> and
  \<^verbatim>\<open>pcap_file_processing_thread_func\<close>. A run is modelled by the list of its observable
  events (what it prints and which functions of other files it calls) and by its exit code.
\<close>

datatype status = status_ok | status_err

datatype analysis_cfg = analysis_off | analysis_on

datatype extended_help = extended_help_off | extended_help_on

text \<open>A C \<^verbatim>\<open>float\<close> as far as the comparisons of option \<^verbatim>\<open>b\<close> need it.\<close>

datatype float_val = Finite real | Pos_inf | Neg_inf | NaN

fun float_lt_zero :: "float_val \<Rightarrow> bool" where
  "float_lt_zero (Finite r) = (r < 0)"
| "float_lt_zero Neg_inf = True"
| "float_lt_zero Pos_inf = False"
| "float_lt_zero NaN = False"

fun float_gt_one :: "float_val \<Rightarrow> bool" where
  "float_gt_one (Finite r) = (1 < r)"
| "float_gt_one Pos_inf = True"
| "float_gt_one Neg_inf = False"
| "float_gt_one NaN = False"

text \<open>
  \<^verbatim>\<open>struct mercury_config\<close> is declared in \<^verbatim>\<open>mercury.h\<close>; these are the fields that
  \<^verbatim>\<open>mercury.c\<close> reads or writes. A \<^verbatim>\<open>char *\<close> that may be \<^verbatim>\<open>NULL\<close> is a \<open>string option\<close>.
  The fields \<^verbatim>\<open>filter\<close> and \<^verbatim>\<open>rotate\<close> carry a suffix, the plain names being list functions.
\<close>

record mercury_config =
  read_filename :: "string option"
  write_filename :: "string option"
  fingerprint_filename :: "string option"
  capture_interface :: "string option"
  working_dir :: "string option"
  flags :: int
  mode :: "string option"
  buffer_fraction :: float_val
  num_threads :: int
  rotate_c :: int
  user :: "string option"
  loop_count :: int
  verbosity :: int
  filter_c :: int
  analysis :: analysis_cfg
  use_test_packet :: int
  adaptive :: int
  packet_filter_cfg :: "string option"

text \<open>What a \<^verbatim>\<open>printf\<close> of the file writes, one constructor for each format string.\<close>

datatype message =
    Msg_error string
  | Msg_help string
  | Msg_extended_help
  | Msg_title
  | Msg_convert string
  | Msg_loop_count int
  | Msg_found_cpus int int
  | Msg_init_interface string
  | Msg_frame_handler
  | Msg_open_failed string
  | Msg_dispatch_error status
  | Msg_broadcast_error
  | Msg_create_error
  | Msg_stats nat nat nat
  | Msg_signal_error
  | Msg_stopping

text \<open>
  \<open>Msg_stats packets bytes nanos\<close> is the line "For all files, packets written: ..., bytes
  written: ..., nano sec: ..., bytes per second: ..."; the rate is the \<^verbatim>\<open>double\<close> that the
  code computes from \<open>bytes\<close> and \<open>nanos\<close>.
\<close>

datatype event =
    Stdout message
  | Stderr message
  | Perror string
  | Call_mercury_config_read_from_file string
  | Call_analysis_init
  | Call_analysis_finalize
  | Call_set_percent_accept int
  | Call_setup_signal_handler
  | Call_srand
  | Call_ring_limits_init float_val
  | Call_output_thread_init mercury_config
  | Call_af_packet_bind_and_dispatch mercury_config
  | Call_timer_start
  | Call_pkt_proc_new_from_config mercury_config int
  | Call_filename_append string
  | Call_pcap_file_open string
  | Set_t_output_p
  | Call_pthread_cond_broadcast
  | Call_pthread_create int
  | Call_pcap_file_dispatch_pkt_processor int
  | Call_pthread_join_reader
  | Call_pcap_file_close
  | Delete_pkt_processor
  | Call_timer_stop
  | Set_sig_stop_output
  | Call_pthread_join_output
  | Call_destroy_thread_queues

text \<open>
  The events of the pipeline: every call that can create a thread or a file, and the
  teardown. Printing, reading the configuration file, the analysis engine, the admission
  percentage, the signal handlers and the random seed are not among them.
\<close>

fun pipeline_event :: "event \<Rightarrow> bool" where
  "pipeline_event (Stdout m) = False"
| "pipeline_event (Stderr m) = False"
| "pipeline_event (Perror s) = False"
| "pipeline_event (Call_mercury_config_read_from_file f) = False"
| "pipeline_event Call_analysis_init = False"
| "pipeline_event Call_analysis_finalize = False"
| "pipeline_event (Call_set_percent_accept n) = False"
| "pipeline_event Call_setup_signal_handler = False"
| "pipeline_event Call_srand = False"
| "pipeline_event e = True"

text \<open>
  The functions of other files and of the C library, by what they return. Each of them
  but \<open>strtol\<close>, \<open>strtof\<close> and the configuration reader is called at most once in a run.
  \<open>strtol s\<close> is the number as the assignment stores it in the field, and whether
  \<^verbatim>\<open>errno\<close> is set afterwards.
\<close>

record environment =
  mercury_config_init :: mercury_config
  mercury_config_read_from_file :: "string \<Rightarrow> mercury_config \<Rightarrow> mercury_config"
  strtol :: "string \<Rightarrow> int \<times> bool"
  strtof :: "string \<Rightarrow> float_val \<times> bool"
  analysis_init :: int
  setup_signal_handler :: status
  get_nprocs :: int
  output_thread_init :: "mercury_config \<Rightarrow> int"
  pkt_proc_new_from_config :: "mercury_config \<Rightarrow> bool"
  filename_append :: "string \<Rightarrow> status \<times> string"
  pcap_file_open :: "string \<Rightarrow> status"
  pthread_cond_broadcast :: int
  pthread_create :: int
  pcap_file_dispatch_pkt_processor :: status
  bytes_written :: nat
  packets_written :: nat
  timer_stop :: nat

text \<open>\<^verbatim>\<open>struct pcap_reader_thread_context\<close>; \<open>tc_rf\<close> is the name of the opened file.\<close>

record pcap_reader_thread_context =
  tc_pkt_processor :: bool
  tc_tnum :: int
  tc_rf :: "string option"
  tc_loop_count :: int

section \<open>Processes\<close>

text \<open>
  A piece of the program yields the events it produced and either the exit code with which
  the process ended there (\<open>Inl\<close>) or its result (\<open>Inr\<close>).
\<close>

type_synonym 'a proc = "event list \<times> (int + 'a)"

definition then_do :: "'a proc \<Rightarrow> ('a \<Rightarrow> 'b proc) \<Rightarrow> 'b proc" where
  "then_do p f =
     (case p of
        (tr, Inl code) \<Rightarrow> (tr, Inl code)
      | (tr, Inr x) \<Rightarrow> (case f x of (tr', r) \<Rightarrow> (tr @ tr', r)))"

definition EXIT_ERR :: int where
  "EXIT_ERR = 255"

definition EXIT_FAILURE :: int where
  "EXIT_FAILURE = 1"

definition O_TRUNC :: int where
  "O_TRUNC = 512"

definition FLAGS_CLOBBER :: int where
  "FLAGS_CLOBBER = O_TRUNC"

definition usage :: "string \<Rightarrow> string option \<Rightarrow> extended_help \<Rightarrow> 'a proc" where
  "usage progname err_string ext =
     ((case err_string of Some e \<Rightarrow> [Stdout (Msg_error e)] | None \<Rightarrow> [])
        @ [Stdout (Msg_help progname)]
        @ (if ext \<noteq> extended_help_off then [Stdout Msg_extended_help] else []),
      Inl EXIT_ERR)"

section \<open>The option loop of main\<close>

text \<open>
  An element of the command line as \<^verbatim>\<open>getopt_long\<close> hands it over: the value it returns
  and \<^verbatim>\<open>optarg\<close>. The list holds the results up to the first negative one, where the loop
  ends. The state of the loop is \<^verbatim>\<open>cfg\<close> and \<^verbatim>\<open>num_inputs\<close>.
\<close>

type_synonym getopt_result = "nat \<times> string option"

type_synonym main_state = "mercury_config \<times> int"

definition switch_case ::
  "environment \<Rightarrow> string \<Rightarrow> nat \<Rightarrow> string option \<Rightarrow> main_state \<Rightarrow> main_state proc" where
  \<open>switch_case env progname c optarg st =
    (let cfg = fst st; num_inputs = snd st in
     if c = 1 then
       (case optarg of
          Some a \<Rightarrow> ([Call_mercury_config_read_from_file a],
                     Inr (mercury_config_read_from_file env a cfg, num_inputs + 1))
        | None \<Rightarrow> usage progname
            (Some ''error: option config requires filename argument'') extended_help_off)
     else if c = of_char CHR ''r'' then
       (case optarg of
          Some a \<Rightarrow> ([], Inr (cfg\<lparr>read_filename := Some a\<rparr>, num_inputs + 1))
        | None \<Rightarrow> usage progname
            (Some ''error: option r or read requires filename argument'') extended_help_off)
     else if c = of_char CHR ''w'' then
       (case optarg of
          Some a \<Rightarrow> ([], Inr (cfg\<lparr>write_filename := Some a\<rparr>, num_inputs))
        | None \<Rightarrow> usage progname
            (Some ''error: option w or write requires filename argument'') extended_help_off)
     else if c = of_char CHR ''d'' then
       (case optarg of
          Some a \<Rightarrow> ([], Inr (cfg\<lparr>working_dir := Some a\<rparr>, num_inputs + 1))
        | None \<Rightarrow> usage progname
            (Some ''error: option d or directory requires working directory argument'')
            extended_help_off)
     else if c = of_char CHR ''c'' then
       (case optarg of
          Some a \<Rightarrow> ([], Inr (cfg\<lparr>capture_interface := Some a\<rparr>, num_inputs + 1))
        | None \<Rightarrow> usage progname
            (Some ''error: option c or capture requires interface argument'') extended_help_off)
     else if c = of_char CHR ''f'' then
       (case optarg of
          Some a \<Rightarrow> ([], Inr (cfg\<lparr>fingerprint_filename := Some a\<rparr>, num_inputs))
        | None \<Rightarrow> usage progname
            (Some ''error: option f or fingerprint requires filename argument'')
            extended_help_off)
     else if c = of_char CHR ''a'' then
       (case optarg of
          Some a \<Rightarrow> usage progname
            (Some ''error: option a or analysis does not use an argument'') extended_help_off
        | None \<Rightarrow> ([], Inr (cfg\<lparr>analysis := analysis_on\<rparr>, num_inputs)))
     else if c = of_char CHR ''o'' then
       (case optarg of
          Some a \<Rightarrow> usage progname
            (Some ''error: option o or overwrite does not use an argument'') extended_help_off
        | None \<Rightarrow> ([], Inr (cfg\<lparr>flags := FLAGS_CLOBBER, mode := Some ''w''\<rparr>, num_inputs)))
     else if c = of_char CHR ''s'' then
       (case optarg of
          Some a \<Rightarrow>
            (case a of
               [] \<Rightarrow> usage progname
                 (Some ''error: option s or select has the form s="packet filter config string"'')
                 extended_help_off
             | x # xs \<Rightarrow>
                 if x \<noteq> CHR ''='' \<or> xs = [] then usage progname
                   (Some ''error: option s or select has the form s="packet filter config string"'')
                   extended_help_off
                 else ([], Inr (cfg\<lparr>packet_filter_cfg := Some xs, filter_c := 1\<rparr>, num_inputs)))
        | None \<Rightarrow> ([], Inr (cfg\<lparr>filter_c := 1\<rparr>, num_inputs)))
     else if c = of_char CHR ''h'' then
       (case optarg of
          Some a \<Rightarrow> usage progname
            (Some ''error: option h or help does not use an argument'') extended_help_on
        | None \<Rightarrow> then_do ([Stdout Msg_title], Inr ())
            (\<lambda>_. usage progname None extended_help_on))
     else if c = of_char CHR ''T'' then
       (case optarg of
          Some a \<Rightarrow> usage progname
            (Some ''error: option T or test does not use an argument'') extended_help_off
        | None \<Rightarrow> ([], Inr (cfg\<lparr>use_test_packet := 1\<rparr>, num_inputs + 1)))
     else if c = of_char CHR ''t'' then
       (case optarg of
          Some a \<Rightarrow>
            if a = ''cpu'' then ([], Inr (cfg\<lparr>num_threads := - 1\<rparr>, num_inputs))
            else ((if snd (strtol env a) then [Stdout (Msg_convert a)] else []),
                  Inr (cfg\<lparr>num_threads := fst (strtol env a)\<rparr>, num_inputs))
        | None \<Rightarrow> usage progname
            (Some ''error: option t or threads requires a numeric argument'') extended_help_off)
     else if c = of_char CHR ''l'' then
       (case optarg of
          Some a \<Rightarrow> ((if snd (strtol env a) then [Stdout (Msg_convert a)] else []),
                     Inr (cfg\<lparr>rotate_c := fst (strtol env a)\<rparr>, num_inputs))
        | None \<Rightarrow> usage progname
            (Some ''error: option l or limit requires a numeric argument'') extended_help_off)
     else if c = of_char CHR ''p'' then
       (case optarg of
          Some a \<Rightarrow> ((if snd (strtol env a) then [Stdout (Msg_convert a)] else []),
                     Inr (cfg\<lparr>loop_count := fst (strtol env a)\<rparr>, num_inputs))
        | None \<Rightarrow> usage progname
            (Some ''error: option p or loop requires a numeric argument'') extended_help_off)
     else if c = 0 then
       (case optarg of
          Some a \<Rightarrow> usage progname
            (Some ''error: option --adaptive does not use an argument'') extended_help_off
        | None \<Rightarrow> ([], Inr (cfg\<lparr>adaptive := 1\<rparr>, num_inputs)))
     else if c = of_char CHR ''u'' then
       (case optarg of
          Some a \<Rightarrow> ([], Inr (cfg\<lparr>user := Some a\<rparr>, num_inputs))
        | None \<Rightarrow> usage progname
            (Some ''error: option u or user requires an argument'') extended_help_off)
     else if c = of_char CHR ''b'' then
       (case optarg of
          Some a \<Rightarrow>
            if snd (strtof env a) then
              then_do ([Stdout (Msg_convert a)], Inr ())
                (\<lambda>_. usage progname None extended_help_off)
            else if float_lt_zero (fst (strtof env a)) \<or> float_gt_one (fst (strtof env a)) then
              usage progname
                (Some ''buffer fraction must be between 0.0 and 1.0 inclusive'') extended_help_off
            else ([], Inr (cfg\<lparr>buffer_fraction := fst (strtof env a)\<rparr>, num_inputs))
        | None \<Rightarrow> usage progname
            (Some ''option b or buffer requires a numeric argument'') extended_help_off)
     else if c = of_char CHR ''v'' then
       (case optarg of
          Some a \<Rightarrow> usage progname
            (Some ''error: option v or verbose does not use an argument'') extended_help_off
        | None \<Rightarrow> ([], Inr (cfg\<lparr>verbosity := 1\<rparr>, num_inputs)))
     else usage progname None extended_help_off)\<close>

fun getopt_loop ::
  "environment \<Rightarrow> string \<Rightarrow> getopt_result list \<Rightarrow> main_state \<Rightarrow> main_state proc" where
  "getopt_loop env progname [] st = ([], Inr st)"
| "getopt_loop env progname (x # rest) st =
     then_do (switch_case env progname (fst x) (snd x) st) (getopt_loop env progname rest)"

section \<open>Reading a capture file\<close>

text \<open>
  \<^verbatim>\<open>pcap_reader_thread_context_init_from_config\<close> (lines 59 to 87): the events, the status
  returned and the thread context as it is filled in.
\<close>

definition pcap_reader_thread_context_init_from_config ::
  "environment \<Rightarrow> mercury_config \<Rightarrow> int
     \<Rightarrow> event list \<times> status \<times> pcap_reader_thread_context" where
  "pcap_reader_thread_context_init_from_config env cfg tnum =
    (let tc = \<lparr>tc_pkt_processor = pkt_proc_new_from_config env cfg, tc_tnum = tnum,
                tc_rf = None, tc_loop_count = loop_count cfg\<rparr>;
         made = [Call_pkt_proc_new_from_config cfg tnum] in
     if \<not> pkt_proc_new_from_config env cfg then
       (made @ [Stdout Msg_frame_handler], status_err, tc)
     else
       (case read_filename cfg of
          None \<Rightarrow> (made, status_ok, tc)
        | Some name \<Rightarrow>
            (let appended = filename_append env name;
                 input_filename = snd appended;
                 opened = pcap_file_open env input_filename in
             if fst appended \<noteq> status_ok then
               (made @ [Call_filename_append name], fst appended, tc)
             else if opened \<noteq> status_ok then
               (made @ [Call_filename_append name, Call_pcap_file_open input_filename,
                        Stdout (Msg_open_failed name)], opened, tc)
             else
               (made @ [Call_filename_append name, Call_pcap_file_open input_filename],
                status_ok, tc\<lparr>tc_rf := Some input_filename\<rparr>))))"

text \<open>\<^verbatim>\<open>pcap_file_processing_thread_func\<close> (lines 89 to 100), the body of the reader thread.\<close>

definition pcap_file_processing_thread_func ::
  "environment \<Rightarrow> pcap_reader_thread_context \<Rightarrow> event list" where
  "pcap_file_processing_thread_func env tc =
     Call_pcap_file_dispatch_pkt_processor (tc_loop_count tc)
       # (if pcap_file_dispatch_pkt_processor env \<noteq> status_ok
          then [Stdout (Msg_dispatch_error (pcap_file_dispatch_pkt_processor env))] else [])"

text \<open>
  \<^verbatim>\<open>open_and_dispatch\<close> (lines 102 to 155). The reader thread runs between its creation and
  its join, where the calling thread waits for it.
\<close>

definition open_and_dispatch :: "environment \<Rightarrow> mercury_config \<Rightarrow> status proc" where
  "open_and_dispatch env cfg =
    (case pcap_reader_thread_context_init_from_config env cfg 0 of
       (init_events, st, tc) \<Rightarrow>
         if st \<noteq> status_ok then
           (Call_timer_start # init_events
              @ [Perror ''could not initialize pcap reader thread context''], Inr st)
         else if pthread_cond_broadcast env \<noteq> 0 then
           (Call_timer_start # init_events
              @ [Set_t_output_p, Call_pthread_cond_broadcast, Stdout Msg_broadcast_error],
            Inl 255)
         else if pthread_create env \<noteq> 0 then
           (Call_timer_start # init_events
              @ [Set_t_output_p, Call_pthread_cond_broadcast,
                 Call_pthread_create (pthread_create env), Stdout Msg_create_error],
            Inl 255)
         else
           (Call_timer_start # init_events
              @ [Set_t_output_p, Call_pthread_cond_broadcast,
                 Call_pthread_create (pthread_create env)]
              @ pcap_file_processing_thread_func env tc
              @ [Call_pthread_join_reader, Call_pcap_file_close, Delete_pkt_processor,
                 Call_timer_stop]
              @ (if write_filename cfg \<noteq> None \<and> verbosity cfg \<noteq> 0
                 then [Stdout (Msg_stats (packets_written env) (bytes_written env)
                                 (timer_stop env))]
                 else []),
            Inr status_ok))"

section \<open>main after the option loop\<close>

text \<open>Lines 456 to 461: one and only one input.\<close>

definition main_check_inputs :: "string \<Rightarrow> int \<Rightarrow> unit proc" where
  "main_check_inputs progname num_inputs =
     (if num_inputs = 0 then
        usage progname (Some ''neither read [r] nor capture [c] specified on command line'')
          extended_help_off
      else if num_inputs > 1 then
        usage progname
          (Some ''incompatible arguments read [r] and capture [c] specified on command line'')
          extended_help_off
      else ([], Inr ()))"

text \<open>Lines 462 to 467: the outputs and the number of threads.\<close>

definition main_check_outputs :: "string \<Rightarrow> mercury_config \<Rightarrow> unit proc" where
  "main_check_outputs progname cfg =
     (if fingerprint_filename cfg \<noteq> None \<and> write_filename cfg \<noteq> None then
        usage progname (Some ''both fingerprint [f] and write [w] specified on command line'')
          extended_help_off
      else if num_threads cfg \<noteq> 1 \<and> fingerprint_filename cfg = None
                \<and> write_filename cfg = None then
        usage progname
          (Some ''multiple threads [t] requested, but neither fingerprint [f] no write [w] specified on command line'')
          extended_help_off
      else ([], Inr ()))"

text \<open>Lines 469 to 473: the analysis engine; \<^verbatim>\<open>main\<close> returns \<^verbatim>\<open>EXIT_FAILURE\<close> when it fails.\<close>

definition main_analysis_init :: "environment \<Rightarrow> mercury_config \<Rightarrow> unit proc" where
  "main_analysis_init env cfg =
     (if analysis cfg \<noteq> analysis_off then
        (if analysis_init env = - 1 then ([Call_analysis_init], Inl EXIT_FAILURE)
         else ([Call_analysis_init], Inr ()))
      else ([], Inr ()))"

text \<open>Lines 475 to 484: the loop count.\<close>

definition main_check_loop_count :: "string \<Rightarrow> mercury_config \<Rightarrow> unit proc" where
  "main_check_loop_count progname cfg =
     (if loop_count cfg < 1 then
        usage progname (Some ''Invalid loop count, it should be >= 1'') extended_help_off
      else if loop_count cfg > 1 then ([Stdout (Msg_loop_count (loop_count cfg))], Inr ())
      else ([], Inr ()))"

text \<open>Lines 486 to 493: the option --adaptive.\<close>

definition main_check_adaptive :: "string \<Rightarrow> mercury_config \<Rightarrow> unit proc" where
  "main_check_adaptive progname cfg =
     (if adaptive cfg > 0 then
        (if write_filename cfg = None \<or> capture_interface cfg = None then
           usage progname
             (Some ''The option --adaptive requires options -c capture interface and -w pcap file.'')
             extended_help_off
         else ([Call_set_percent_accept 30], Inr ()))
      else ([], Inr ()))"

text \<open>Lines 495 to 510: signal handlers, the number of threads, the random seed.\<close>

definition main_setup :: "environment \<Rightarrow> mercury_config \<Rightarrow> mercury_config proc" where
  "main_setup env cfg =
     (let num_cpus = get_nprocs env in
      (Call_setup_signal_handler
         # (if setup_signal_handler env \<noteq> status_ok then [Stderr Msg_signal_error] else [])
         @ (if num_threads cfg = - 1 then [Stdout (Msg_found_cpus num_cpus num_cpus)] else [])
         @ [Call_srand],
       Inr (if num_threads cfg = - 1 then cfg\<lparr>num_threads := num_cpus\<rparr> else cfg)))"

text \<open>
  Lines 512 to 536: capture from an interface, or read a file. The status that
  \<^verbatim>\<open>open_and_dispatch\<close> returns is not looked at.
\<close>

definition main_process_packets :: "environment \<Rightarrow> mercury_config \<Rightarrow> unit proc" where
  "main_process_packets env cfg =
     (case capture_interface cfg of
        Some interface \<Rightarrow>
          if output_thread_init env cfg \<noteq> 0 then
            ((if verbosity cfg \<noteq> 0 then [Stdout (Msg_init_interface interface)] else [])
               @ [Call_ring_limits_init (buffer_fraction cfg), Call_output_thread_init cfg,
                  Perror (''Unable to initialize output thread'' @ [CHR 0x0A])],
             Inl EXIT_FAILURE)
          else
            ((if verbosity cfg \<noteq> 0 then [Stdout (Msg_init_interface interface)] else [])
               @ [Call_ring_limits_init (buffer_fraction cfg), Call_output_thread_init cfg,
                  Call_af_packet_bind_and_dispatch cfg],
             Inr ())
      | None \<Rightarrow>
          if read_filename cfg \<noteq> None then
            (if output_thread_init env cfg \<noteq> 0 then
               ([Call_output_thread_init cfg, Perror (''Unable to initialize output thread'' @ [CHR 0x0A])],
                Inl EXIT_FAILURE)
             else
               then_do ([Call_output_thread_init cfg], Inr ())
                 (\<lambda>_. then_do (open_and_dispatch env cfg) (\<lambda>_. ([], Inr ()))))
          else ([], Inr ()))"

text \<open>Lines 538 to 549: the end of \<^verbatim>\<open>main\<close>, which returns 0.\<close>

definition main_shutdown :: "mercury_config \<Rightarrow> int proc" where
  "main_shutdown cfg =
     ((if analysis cfg \<noteq> analysis_off then [Call_analysis_finalize] else [])
        @ [Stderr Msg_stopping, Set_sig_stop_output, Call_pthread_join_output,
           Call_destroy_thread_queues],
      Inr 0)"

text \<open>The checks (lines 456 to 493), then the run (lines 495 to 549).\<close>

definition main_validate :: "environment \<Rightarrow> string \<Rightarrow> main_state \<Rightarrow> unit proc" where
  "main_validate env progname st =
     then_do (main_check_inputs progname (snd st)) (\<lambda>_.
     then_do (main_check_outputs progname (fst st)) (\<lambda>_.
     then_do (main_analysis_init env (fst st)) (\<lambda>_.
     then_do (main_check_loop_count progname (fst st)) (\<lambda>_.
     main_check_adaptive progname (fst st)))))"

definition main_run :: "environment \<Rightarrow> mercury_config \<Rightarrow> int proc" where
  "main_run env cfg0 =
     then_do (main_setup env cfg0) (\<lambda>cfg.
     then_do (main_process_packets env cfg) (\<lambda>_.
     main_shutdown cfg))"

definition main_after_getopt :: "environment \<Rightarrow> string \<Rightarrow> main_state \<Rightarrow> int proc" where
  "main_after_getopt env progname st =
     then_do (main_validate env progname st) (\<lambda>_. main_run env (fst st))"

definition main_proc :: "environment \<Rightarrow> string \<Rightarrow> getopt_result list \<Rightarrow> int proc" where
  "main_proc env progname opts =
     then_do (getopt_loop env progname opts (mercury_config_init env, 0))
       (main_after_getopt env progname)"

text \<open>A run: its events, and the exit code of the process.\<close>

definition main :: "environment \<Rightarrow> string \<Rightarrow> getopt_result list \<Rightarrow> event list \<times> int" where
  "main env progname opts =
     (case main_proc env progname opts of
        (tr, Inl code) \<Rightarrow> (tr, code)
      | (tr, Inr code) \<Rightarrow> (tr, code))"

section \<open>A concrete environment\<close>

text \<open>
  Modelled from the spec: the result of \<^verbatim>\<open>mercury_config_init\<close>, which is not in
  \<^verbatim>\<open>mercury.c\<close>. No file name and no interface is set, every toggle is off, there is one
  thread (line 465 takes any other number as a request for several threads) and the loop
  count is 1 (the default condition of the comment at line 478; the replay repeat count of
  the spec is at least 1).
\<close>

definition initial_config :: mercury_config where
  "initial_config =
     \<lparr>read_filename = None, write_filename = None, fingerprint_filename = None,
      capture_interface = None, working_dir = None, flags = 128, mode = Some ''w'',
      buffer_fraction = Finite (1 / 8), num_threads = 1, rotate_c = 0, user = None,
      loop_count = 1, verbosity = 0, filter_c = 0, analysis = analysis_off,
      use_test_packet = 0, adaptive = 0, packet_filter_cfg = None\<rparr>"

text \<open>
  Modelled from the spec: an environment in which every call succeeds. The configuration
  file sets nothing, \<open>strtol\<close> knows the numerals used below, the machine has 8 processors,
  and the packet processor has written 10 packets of 1500 bytes in 2000 nanoseconds.
\<close>

definition strtol_example :: "string \<Rightarrow> int \<times> bool" where
  "strtol_example s =
     (if s = ''0'' then (0, False) else if s = ''1'' then (1, False)
      else if s = ''3'' then (3, False) else if s = ''4'' then (4, False)
      else (0, False))"

definition good_env :: environment where
  "good_env =
     \<lparr>mercury_config_init = initial_config,
      mercury_config_read_from_file = (\<lambda>name cfg. cfg),
      strtol = strtol_example,
      strtof = (\<lambda>s. (Finite (1 / 10), False)),
      analysis_init = 0,
      setup_signal_handler = status_ok,
      get_nprocs = 8,
      output_thread_init = (\<lambda>cfg. 0),
      pkt_proc_new_from_config = (\<lambda>cfg. True),
      filename_append = (\<lambda>name. (status_ok, name)),
      pcap_file_open = (\<lambda>name. status_ok),
      pthread_cond_broadcast = 0,
      pthread_create = 0,
      pcap_file_dispatch_pkt_processor = status_ok,
      bytes_written = 15000,
      packets_written = 10,
      timer_stop = 2000\<rparr>"

text \<open>
  Modelled from the spec: the same environment with a configuration file that names the
  capture file to replay (configuration loading is not in \<^verbatim>\<open>mercury.c\<close>).
\<close>

definition config_file_env :: environment where
  "config_file_env =
     good_env\<lparr>mercury_config_read_from_file := (\<lambda>name cfg. cfg\<lparr>read_filename := Some ''x.pcap''\<rparr>)\<rparr>"

definition replay_config :: mercury_config where
  "replay_config = initial_config\<lparr>read_filename := Some ''x.pcap''\<rparr>"

section \<open>Notions used by the properties\<close>

text \<open>A trace without any event of the pipeline: no thread and no file has been created.\<close>

definition quiet :: "event list \<Rightarrow> bool" where
  "quiet tr = (\<forall>e \<in> set tr. \<not> pipeline_event e)"

text \<open>A piece of the program that ends the process as \<^verbatim>\<open>usage\<close> does.\<close>

definition usage_exit :: "string \<Rightarrow> 'a proc \<Rightarrow> bool" where
  "usage_exit progname p =
     (snd p = Inl 255 \<and> Stdout (Msg_help progname) \<in> set (fst p) \<and> quiet (fst p))"

text \<open>The results of \<^verbatim>\<open>getopt_long\<close> at which the loop increments \<^verbatim>\<open>num_inputs\<close>.\<close>

definition input_option :: "getopt_result \<Rightarrow> bool" where
  "input_option x =
     (fst x = 1 \<or> fst x = of_char CHR ''r'' \<or> fst x = of_char CHR ''d''
        \<or> fst x = of_char CHR ''c'' \<or> fst x = of_char CHR ''T'')"

text \<open>
  An assumption on \<^verbatim>\<open>mercury_config_read_from_file\<close>, which is not in \<^verbatim>\<open>mercury.c\<close>: reading
  a configuration file never resets to \<^verbatim>\<open>NULL\<close> an output file name that is set.
\<close>

definition config_file_keeps_outputs :: "environment \<Rightarrow> bool" where
  "config_file_keeps_outputs env =
     (\<forall>name cfg.
        (fingerprint_filename cfg \<noteq> None
           \<longrightarrow> fingerprint_filename (mercury_config_read_from_file env name cfg) \<noteq> None)
      \<and> (write_filename cfg \<noteq> None
           \<longrightarrow> write_filename (mercury_config_read_from_file env name cfg) \<noteq> None))"


text \<open>
  The order of the shutdown, checked along a trace. \<open>live\<close>: the reader thread has been
  created and not yet joined; \<open>stop\<close>: \<^verbatim>\<open>sig_stop_output\<close> has been set; \<open>joined\<close>: the output
  thread has been joined. The flag may be set only when no reader thread is live. Once it is
  set, no event of the pipeline may follow but the join of the output thread and the
  destruction of the queues: no reader thread is created or joined, and nothing is
  dispatched, after the flag. The output thread may be joined only when the flag is set, and
  the queues may be destroyed only when no reader thread is live and the output thread has
  been joined.
\<close>

fun shutdown_order :: "bool \<Rightarrow> bool \<Rightarrow> bool \<Rightarrow> event list \<Rightarrow> bool" where
  "shutdown_order live stop joined [] = True"
| "shutdown_order live stop joined (Call_pthread_create err # tr) =
     (\<not> stop \<and> shutdown_order (live \<or> err = 0) stop joined tr)"
| "shutdown_order live stop joined (Call_pthread_join_reader # tr) =
     (\<not> stop \<and> shutdown_order False stop joined tr)"
| "shutdown_order live stop joined (Set_sig_stop_output # tr) =
     (\<not> live \<and> \<not> stop \<and> shutdown_order live True joined tr)"
| "shutdown_order live stop joined (Call_pthread_join_output # tr) =
     (stop \<and> shutdown_order live stop True tr)"
| "shutdown_order live stop joined (Call_destroy_thread_queues # tr) =
     (\<not> live \<and> joined \<and> shutdown_order live stop joined tr)"
| "shutdown_order live stop joined (e # tr) =
     (\<not> (stop \<and> pipeline_event e) \<and> shutdown_order live stop joined tr)"

text \<open>
  Modelled from the spec: environments in which one call fails, \<^verbatim>\<open>pcap_file_open\<close> (the
  capture file cannot be opened) or \<^verbatim>\<open>analysis_init\<close> (it returns -1).
\<close>

definition unreadable_env :: environment where
  "unreadable_env = good_env\<lparr>pcap_file_open := (\<lambda>name. status_err)\<rparr>"

definition failing_analysis_env :: environment where
  "failing_analysis_env = good_env\<lparr>analysis_init := - 1\<rparr>"

definition missing_config :: mercury_config where
  "missing_config = initial_config\<lparr>read_filename := Some ''missing.pcap''\<rparr>"

definition verbose_config :: mercury_config where
  "verbose_config = initial_config\<lparr>read_filename := Some ''x.pcap'', verbosity := 1\<rparr>"

definition verbose_write_config :: mercury_config where
  "verbose_write_config =
     initial_config\<lparr>read_filename := Some ''x.pcap'', write_filename := Some ''out.pcap'',
       verbosity := 1\<rparr>"

text \<open>The message of line 82: the capture file could not be opened.\<close>

fun open_failure :: "event \<Rightarrow> bool" where
  "open_failure (Stdout (Msg_open_failed name)) = True"
| "open_failure e = False"

text \<open>
  Modelled from the spec: environments with a configuration file that names a capture file
  and a fingerprint file, or an interface and a pcap write file (configuration loading is not
  in \<^verbatim>\<open>mercury.c\<close>); and an environment in which \<^verbatim>\<open>-t 4294967297\<close> is stored as 1 in the
  \<^verbatim>\<open>int\<close> field \<^verbatim>\<open>num_threads\<close>, the number being \<open>2 ^ 32 + 1\<close>.
\<close>

definition output_config_env :: environment where
  "output_config_env =
     good_env\<lparr>mercury_config_read_from_file :=
       (\<lambda>name cfg. cfg\<lparr>read_filename := Some ''x.pcap'',
                          fingerprint_filename := Some ''out.json''\<rparr>)\<rparr>"

definition capture_config_env :: environment where
  "capture_config_env =
     good_env\<lparr>mercury_config_read_from_file :=
       (\<lambda>name cfg. cfg\<lparr>capture_interface := Some ''eth0'',
                          write_filename := Some ''out.pcap''\<rparr>)\<rparr>"

definition wrapping_env :: environment where
  "wrapping_env =
     good_env\<lparr>strtol := (\<lambda>s. if s = ''4294967297'' then (1, False) else strtol_example s)\<rparr>"

definition four_threads_config :: mercury_config where
  "four_threads_config =
     initial_config\<lparr>read_filename := Some ''x.pcap'', fingerprint_filename := Some ''out.json'',
       num_threads := 4\<rparr>"

definition adaptive_capture_config :: mercury_config where
  "adaptive_capture_config =
     initial_config\<lparr>write_filename := Some ''out.pcap'', capture_interface := Some ''eth0'',
       adaptive := 1\<rparr>"

section \<open>Processes and the option loop: auxiliary facts\<close>

lemma then_do_exit: "snd p = Inl c \<Longrightarrow> then_do p f = (fst p, Inl c)"
  by (cases p) (simp add: then_do_def)

lemma then_do_cont: "snd p = Inr x \<Longrightarrow> then_do p f = (fst p @ fst (f x), snd (f x))"
  by (cases p) (simp add: then_do_def split: prod.splits)

lemma quiet_append [simp]: "quiet (xs @ ys) = (quiet xs \<and> quiet ys)"
  by (auto simp: quiet_def)

lemma quiet_Nil [simp]: "quiet []"
  by (simp add: quiet_def)

lemma usage_is_exit: "usage_exit p (usage p e x)"
  by (auto simp: usage_def usage_exit_def EXIT_ERR_def quiet_def split: option.splits)

text \<open>One step of the loop: it ends the run with the usage text, or it goes on after printing at most a conversion warning.\<close>

lemma switch_case_step:
  "usage_exit p (switch_case env p c optarg st) \<or>
   (\<exists>st'. snd (switch_case env p c optarg st) = Inr st' \<and> quiet (fst (switch_case env p c optarg st)))"
  unfolding switch_case_def Let_def usage_exit_def
  by (auto simp: usage_def then_do_def quiet_def EXIT_ERR_def split: option.splits list.splits)

lemma getopt_loop_step:
  "usage_exit p (getopt_loop env p opts st) \<or>
   (\<exists>st'. snd (getopt_loop env p opts st) = Inr st' \<and> quiet (fst (getopt_loop env p opts st)))"
proof (induction opts arbitrary: st)
  case Nil
  then show ?case by simp
next
  case (Cons x rest)
  let ?s = "switch_case env p (fst x) (snd x) st"
  from switch_case_step [of p env "fst x" "snd x" st]
  show ?case
  proof
    assume "usage_exit p ?s"
    then show ?thesis by (simp add: usage_exit_def then_do_exit)
  next
    assume "\<exists>st'. snd ?s = Inr st' \<and> quiet (fst ?s)"
    then obtain st' where s: "snd ?s = Inr st'" "quiet (fst ?s)" by blast
    from Cons.IH [of st'] show ?thesis
      using s by (auto simp: then_do_cont usage_exit_def)
  qed
qed

lemma switch_case_num_inputs:
  assumes "snd (switch_case env p c optarg st) = Inr st'"
  shows "snd st' = snd st +
     (if c = 1 \<or> c = of_char CHR ''r'' \<or> c = of_char CHR ''d'' \<or> c = of_char CHR ''c''
         \<or> c = of_char CHR ''T'' then 1 else 0)"
  using assms unfolding switch_case_def Let_def
  by (auto simp: usage_def then_do_def split: option.splits list.splits if_splits)

lemma switch_case_config:
  assumes "snd (switch_case env p 1 optarg st) = Inr st'"
  shows "\<exists>a. optarg = Some a \<and> fst st' = mercury_config_read_from_file env a (fst st)"
  using assms unfolding switch_case_def Let_def
  by (auto simp: usage_def split: option.splits)

lemma switch_case_fields:
  assumes "snd (switch_case env p c optarg st) = Inr st'" and "c \<noteq> 1"
  shows "read_filename (fst st') = (if c = of_char CHR ''r'' then optarg else read_filename (fst st))"
    and "write_filename (fst st') = (if c = of_char CHR ''w'' then optarg else write_filename (fst st))"
    and "fingerprint_filename (fst st') =
           (if c = of_char CHR ''f'' then optarg else fingerprint_filename (fst st))"
    and "capture_interface (fst st') =
           (if c = of_char CHR ''c'' then optarg else capture_interface (fst st))"
    and "num_threads (fst st') =
           (if c = of_char CHR ''t''
            then (if optarg = Some ''cpu'' then - 1 else fst (strtol env (the optarg)))
            else num_threads (fst st))"
    and "adaptive (fst st') = (if c = 0 then 1 else adaptive (fst st))"
  using assms unfolding switch_case_def Let_def
  by (auto simp: usage_def then_do_def split: option.splits list.splits if_splits)

lemma main_loop_exit:
  assumes "snd (getopt_loop env p opts (mercury_config_init env, 0)) = Inl c"
  shows "main env p opts = (fst (getopt_loop env p opts (mercury_config_init env, 0)), c)"
  using assms by (simp add: main_def main_proc_def then_do_exit)

lemma main_validate_exit:
  assumes "snd (getopt_loop env p opts (mercury_config_init env, 0)) = Inr st"
    and "snd (main_validate env p st) = Inl c"
  shows "main env p opts =
     (fst (getopt_loop env p opts (mercury_config_init env, 0)) @ fst (main_validate env p st), c)"
  using assms by (simp add: main_def main_proc_def main_after_getopt_def then_do_exit then_do_cont)

lemma main_run_eq:
  assumes "snd (getopt_loop env p opts (mercury_config_init env, 0)) = Inr st"
    and "snd (main_validate env p st) = Inr u"
  shows "main env p opts =
     (fst (getopt_loop env p opts (mercury_config_init env, 0)) @ fst (main_validate env p st)
        @ fst (main_run env (fst st)),
      case snd (main_run env (fst st)) of Inl c \<Rightarrow> c | Inr c \<Rightarrow> c)"
  using assms
  by (simp add: main_def main_proc_def main_after_getopt_def then_do_cont split: prod.splits sum.splits)

lemma main_rejected:
  assumes "\<And>st. snd (getopt_loop env p opts (mercury_config_init env, 0)) = Inr st
             \<Longrightarrow> usage_exit p (main_validate env p st)"
  shows "snd (main env p opts) = 255 \<and> Stdout (Msg_help p) \<in> set (fst (main env p opts))
           \<and> quiet (fst (main env p opts))"
proof -
  let ?l = "getopt_loop env p opts (mercury_config_init env, 0)"
  from getopt_loop_step [of p env opts "(mercury_config_init env, 0)"]
  show ?thesis
  proof
    assume "usage_exit p ?l"
    then show ?thesis by (simp add: usage_exit_def main_loop_exit)
  next
    assume "\<exists>st'. snd ?l = Inr st' \<and> quiet (fst ?l)"
    then obtain st where st: "snd ?l = Inr st" "quiet (fst ?l)" by blast
    from assms [OF st(1)] have "usage_exit p (main_validate env p st)" .
    then show ?thesis using st by (simp add: usage_exit_def main_validate_exit)
  qed
qed

lemma validate_inputs: "snd st = 0 \<or> 1 < snd st \<Longrightarrow> usage_exit p (main_validate env p st)"
  by (auto simp: main_validate_def main_check_inputs_def then_do_def usage_def usage_exit_def
      EXIT_ERR_def quiet_def)

lemma validate_outputs:
  "fingerprint_filename (fst st) \<noteq> None \<Longrightarrow> write_filename (fst st) \<noteq> None
     \<Longrightarrow> usage_exit p (main_validate env p st)"
  by (auto simp: main_validate_def main_check_inputs_def main_check_outputs_def
      then_do_def usage_def usage_exit_def EXIT_ERR_def quiet_def)

lemma validate_threads:
  "num_threads (fst st) \<noteq> 1 \<Longrightarrow> fingerprint_filename (fst st) = None
     \<Longrightarrow> write_filename (fst st) = None \<Longrightarrow> usage_exit p (main_validate env p st)"
  by (auto simp: main_validate_def main_check_inputs_def main_check_outputs_def
      then_do_def usage_def usage_exit_def EXIT_ERR_def quiet_def)

lemma validate_quiet: "quiet (fst (main_validate env p st))"
  by (auto simp: main_validate_def main_check_inputs_def main_check_outputs_def
      main_analysis_init_def main_check_loop_count_def main_check_adaptive_def
      then_do_def usage_def quiet_def)

lemma then_do_Inr:
  assumes "snd (then_do p f) = Inr y"
  obtains x where "snd p = Inr x" and "snd (f x) = Inr y"
proof (cases "snd p")
  case (Inl c)
  with assms show ?thesis by (simp add: then_do_exit)
next
  case (Inr x)
  with assms that show ?thesis by (simp add: then_do_cont)
qed

lemma getopt_loop_Cons_Inr:
  assumes "snd (getopt_loop env p (x # rest) st) = Inr st'"
  obtains st1 where "snd (switch_case env p (fst x) (snd x) st) = Inr st1"
    and "snd (getopt_loop env p rest st1) = Inr st'"
  using assms by (auto elim: then_do_Inr)

lemma getopt_loop_num_inputs:
  "snd (getopt_loop env p opts st) = Inr st'
     \<Longrightarrow> snd st' = snd st + int (length (filter input_option opts))"
proof (induction opts arbitrary: st)
  case Nil
  then show ?case by simp
next
  case (Cons x rest)
  from Cons.prems obtain st1 where
    s: "snd (switch_case env p (fst x) (snd x) st) = Inr st1"
    and r: "snd (getopt_loop env p rest st1) = Inr st'"
    by (rule getopt_loop_Cons_Inr)
  from switch_case_num_inputs [OF s] have "snd st1 = snd st + (if input_option x then 1 else 0)"
    by (simp add: input_option_def)
  with Cons.IH [OF r] show ?case by simp
qed

lemma two_in_filter:
  assumes "x \<in> set xs" "y \<in> set xs" "x \<noteq> y" "P x" "P y"
  shows "2 \<le> length (filter P xs)"
proof -
  have "{x, y} \<subseteq> set (filter P xs)" using assms by simp
  then have "card {x, y} \<le> card (set (filter P xs))" by (intro card_mono) simp_all
  also have "\<dots> \<le> length (filter P xs)" by (rule card_length)
  finally show ?thesis using assms(3) by simp
qed

lemmas run_defs = main_def main_proc_def main_after_getopt_def main_validate_def main_run_def
  main_check_inputs_def main_check_outputs_def main_analysis_init_def main_check_loop_count_def
  main_check_adaptive_def main_setup_def main_process_packets_def main_shutdown_def
  open_and_dispatch_def pcap_reader_thread_context_init_from_config_def
  pcap_file_processing_thread_func_def switch_case_def then_do_def usage_def
  EXIT_ERR_def EXIT_FAILURE_def Let_def

lemmas env_defs = good_env_def config_file_env_def initial_config_def replay_config_def
  strtol_example_def

section \<open>The checks on the command line\<close>

text \<open>
  C3 (as amended). For every command line that supplies both a capture interface (\<^verbatim>\<open>-c\<close>)
  and a read file (\<^verbatim>\<open>-r\<close>), or that supplies none of the options counted as an input
  (\<^verbatim>\<open>-r\<close>, \<^verbatim>\<open>-c\<close>, \<^verbatim>\<open>--config\<close>, \<^verbatim>\<open>-d\<close>, and the value \<^verbatim>\<open>T\<close> of the switch), the process
  prints the usage message and exits with code 255, and no event of the pipeline occurs: no
  thread has been spawned and no output file created.
\<close>

theorem input_selection_checked:
  assumes "((of_char CHR ''c'', Some a) \<in> set opts \<and> (of_char CHR ''r'', Some b) \<in> set opts)
             \<or> (\<forall>x \<in> set opts. \<not> input_option x)"
  shows "snd (main env progname opts) = 255
           \<and> Stdout (Msg_help progname) \<in> set (fst (main env progname opts))
           \<and> (\<forall>e \<in> set (fst (main env progname opts)). \<not> pipeline_event e)"
proof -
  have "usage_exit progname (main_validate env progname st)"
    if st: "snd (getopt_loop env progname opts (mercury_config_init env, 0)) = Inr st" for st
  proof -
    from getopt_loop_num_inputs [OF st]
    have n: "snd st = int (length (filter input_option opts))" by simp
    from assms have "snd st = 0 \<or> 1 < snd st"
    proof
      assume "(of_char CHR ''c'', Some a) \<in> set opts \<and> (of_char CHR ''r'', Some b) \<in> set opts"
      then have "2 \<le> length (filter input_option opts)"
        by (intro two_in_filter [of "(of_char CHR ''c'', Some a)" _ "(of_char CHR ''r'', Some b)"])
          (simp_all add: input_option_def)
      with n show ?thesis by simp
    next
      assume "\<forall>x \<in> set opts. \<not> input_option x"
      then have "filter input_option opts = []" by (simp add: filter_empty_conv)
      with n show ?thesis by simp
    qed
    then show ?thesis by (rule validate_inputs)
  qed
  from main_rejected [of env progname opts, OF this] show ?thesis
    by (simp add: quiet_def)
qed

text \<open>
  The theorem at two command lines: \<^verbatim>\<open>-c eth0 -r x.pcap\<close>, and \<^verbatim>\<open>-v\<close> alone.
\<close>

theorem input_selection_checked_witness:
  "snd (main good_env ''mercury''
          [(of_char CHR ''c'', Some ''eth0''), (of_char CHR ''r'', Some ''x.pcap'')]) = 255
   \<and> Stdout (Msg_help ''mercury'') \<in> set (fst (main good_env ''mercury''
          [(of_char CHR ''c'', Some ''eth0''), (of_char CHR ''r'', Some ''x.pcap'')]))
   \<and> snd (main good_env ''mercury'' [(of_char CHR ''v'', None)]) = 255"
  using input_selection_checked [where a = "''eth0''" and b = "''x.pcap''" and env = good_env
      and progname = "''mercury''"
      and opts = "[(of_char CHR ''c'', Some ''eth0''), (of_char CHR ''r'', Some ''x.pcap'')]"]
    input_selection_checked [where env = good_env and progname = "''mercury''"
      and opts = "[(of_char CHR ''v'', None)]"]
  by (simp add: input_option_def)

text \<open>
  C3 as stated fails: \<^verbatim>\<open>mercury --config mercury.cfg\<close> supplies neither \<^verbatim>\<open>-c\<close> nor \<^verbatim>\<open>-r\<close>,
  yet \<^verbatim>\<open>num_inputs\<close> is 1. With a configuration file that names a capture file the run starts
  the pipeline and returns 0; with one that sets nothing the run goes straight to the
  shutdown and returns 0. Neither prints a usage message.
\<close>

theorem neither_input_counterexample:
  "main config_file_env ''mercury'' [(1, Some ''mercury.cfg'')] =
     ([Call_mercury_config_read_from_file ''mercury.cfg'', Call_setup_signal_handler, Call_srand,
       Call_output_thread_init replay_config, Call_timer_start,
       Call_pkt_proc_new_from_config replay_config 0, Call_filename_append ''x.pcap'',
       Call_pcap_file_open ''x.pcap'', Set_t_output_p, Call_pthread_cond_broadcast,
       Call_pthread_create 0, Call_pcap_file_dispatch_pkt_processor 1, Call_pthread_join_reader,
       Call_pcap_file_close, Delete_pkt_processor, Call_timer_stop, Stderr Msg_stopping,
       Set_sig_stop_output, Call_pthread_join_output, Call_destroy_thread_queues], 0)
   \<and> main good_env ''mercury'' [(1, Some ''mercury.cfg'')] =
     ([Call_mercury_config_read_from_file ''mercury.cfg'', Call_setup_signal_handler, Call_srand,
       Stderr Msg_stopping, Set_sig_stop_output, Call_pthread_join_output,
       Call_destroy_thread_queues], 0)"
  by (simp add: run_defs env_defs)

text \<open>
  The option \<^verbatim>\<open>-d\<close> alone has the same effect: \<^verbatim>\<open>mercury -d /tmp\<close> names no input, passes the
  check and returns 0, although the help text lists \<^verbatim>\<open>-d\<close> among the options of a capture.
\<close>

lemma directory_alone_accepted:
  "main good_env ''mercury'' [(of_char CHR ''d'', Some ''/tmp'')] =
     ([Call_setup_signal_handler, Call_srand, Stderr Msg_stopping, Set_sig_stop_output,
       Call_pthread_join_output, Call_destroy_thread_queues], 0)"
  by (simp add: run_defs env_defs)

lemma switch_case_required_argument:
  assumes "snd (switch_case env p c optarg st) = Inr st'"
    and "c = 1 \<or> c = of_char CHR ''r'' \<or> c = of_char CHR ''w'' \<or> c = of_char CHR ''d''
           \<or> c = of_char CHR ''c'' \<or> c = of_char CHR ''f'' \<or> c = of_char CHR ''t''"
  shows "optarg \<noteq> None"
  using assms unfolding switch_case_def Let_def
  by (auto simp: usage_def split: option.splits)

lemma switch_case_keeps_outputs:
  assumes s: "snd (switch_case env p c optarg st) = Inr st'"
    and k: "config_file_keeps_outputs env"
  shows "fingerprint_filename (fst st) \<noteq> None \<or> c = of_char CHR ''f''
           \<Longrightarrow> fingerprint_filename (fst st') \<noteq> None"
    and "write_filename (fst st) \<noteq> None \<or> c = of_char CHR ''w''
           \<Longrightarrow> write_filename (fst st') \<noteq> None"
proof -
  show "fingerprint_filename (fst st') \<noteq> None"
    if "fingerprint_filename (fst st) \<noteq> None \<or> c = of_char CHR ''f''"
  proof (cases "c = 1")
    case True
    with s switch_case_config [of env p optarg st st'] that k show ?thesis
      by (auto simp: config_file_keeps_outputs_def)
  next
    case False
    with switch_case_fields(3) [OF s] switch_case_required_argument [OF s] that
    show ?thesis by auto
  qed
  show "write_filename (fst st') \<noteq> None"
    if "write_filename (fst st) \<noteq> None \<or> c = of_char CHR ''w''"
  proof (cases "c = 1")
    case True
    with s switch_case_config [of env p optarg st st'] that k show ?thesis
      by (auto simp: config_file_keeps_outputs_def)
  next
    case False
    with switch_case_fields(2) [OF s] switch_case_required_argument [OF s] that
    show ?thesis by auto
  qed
qed

lemma getopt_loop_keeps_fingerprint:
  "snd (getopt_loop env p opts st) = Inr st' \<Longrightarrow> config_file_keeps_outputs env
     \<Longrightarrow> fingerprint_filename (fst st) \<noteq> None \<or> (\<exists>x \<in> set opts. fst x = of_char CHR ''f'')
     \<Longrightarrow> fingerprint_filename (fst st') \<noteq> None"
proof (induction opts arbitrary: st)
  case Nil
  then show ?case by simp
next
  case (Cons x rest)
  from Cons.prems(1) obtain st1 where
    s: "snd (switch_case env p (fst x) (snd x) st) = Inr st1"
    and r: "snd (getopt_loop env p rest st1) = Inr st'"
    by (rule getopt_loop_Cons_Inr)
  from Cons.prems(3)
  have "fingerprint_filename (fst st1) \<noteq> None \<or> (\<exists>x \<in> set rest. fst x = of_char CHR ''f'')"
    using switch_case_keeps_outputs(1) [OF s Cons.prems(2)] by auto
  then show ?case by (rule Cons.IH [OF r Cons.prems(2)])
qed

lemma getopt_loop_keeps_write:
  "snd (getopt_loop env p opts st) = Inr st' \<Longrightarrow> config_file_keeps_outputs env
     \<Longrightarrow> write_filename (fst st) \<noteq> None \<or> (\<exists>x \<in> set opts. fst x = of_char CHR ''w'')
     \<Longrightarrow> write_filename (fst st') \<noteq> None"
proof (induction opts arbitrary: st)
  case Nil
  then show ?case by simp
next
  case (Cons x rest)
  from Cons.prems(1) obtain st1 where
    s: "snd (switch_case env p (fst x) (snd x) st) = Inr st1"
    and r: "snd (getopt_loop env p rest st1) = Inr st'"
    by (rule getopt_loop_Cons_Inr)
  from Cons.prems(3)
  have "write_filename (fst st1) \<noteq> None \<or> (\<exists>x \<in> set rest. fst x = of_char CHR ''w'')"
    using switch_case_keeps_outputs(2) [OF s Cons.prems(2)] by auto
  then show ?case by (rule Cons.IH [OF r Cons.prems(2)])
qed

text \<open>
  C6. For every command line that supplies both a fingerprint output file (\<^verbatim>\<open>-f\<close>) and a
  pcap write file (\<^verbatim>\<open>-w\<close>), the process prints the usage message and exits with code 255,
  and no event of the pipeline occurs: no thread has been spawned. A configuration file read
  with \<^verbatim>\<open>--config\<close> is taken not to reset a file name that is set.
\<close>

theorem fingerprint_and_write_rejected:
  assumes "(of_char CHR ''f'', Some a) \<in> set opts" and "(of_char CHR ''w'', Some b) \<in> set opts"
    and "config_file_keeps_outputs env"
  shows "snd (main env progname opts) = 255
           \<and> Stdout (Msg_help progname) \<in> set (fst (main env progname opts))
           \<and> (\<forall>e \<in> set (fst (main env progname opts)). \<not> pipeline_event e)"
proof -
  have "usage_exit progname (main_validate env progname st)"
    if st: "snd (getopt_loop env progname opts (mercury_config_init env, 0)) = Inr st" for st
  proof -
    have "fingerprint_filename (fst st) \<noteq> None"
      using getopt_loop_keeps_fingerprint [OF st assms(3)] assms(1) by force
    moreover have "write_filename (fst st) \<noteq> None"
      using getopt_loop_keeps_write [OF st assms(3)] assms(2) by force
    ultimately show ?thesis by (rule validate_outputs)
  qed
  from main_rejected [of env progname opts, OF this] show ?thesis
    by (simp add: quiet_def)
qed

text \<open>The theorem at \<^verbatim>\<open>-r x.pcap -f out.json -w out.pcap\<close>.\<close>

theorem fingerprint_and_write_rejected_witness:
  "snd (main good_env ''mercury''
          [(of_char CHR ''r'', Some ''x.pcap''), (of_char CHR ''f'', Some ''out.json''),
           (of_char CHR ''w'', Some ''out.pcap'')]) = 255
   \<and> Stdout (Msg_help ''mercury'') \<in> set (fst (main good_env ''mercury''
          [(of_char CHR ''r'', Some ''x.pcap''), (of_char CHR ''f'', Some ''out.json''),
           (of_char CHR ''w'', Some ''out.pcap'')]))"
proof -
  have k: "config_file_keeps_outputs good_env"
    by (simp add: config_file_keeps_outputs_def good_env_def)
  show ?thesis
    using k fingerprint_and_write_rejected [where a = "''out.json''" and b = "''out.pcap''"
      and env = good_env and progname = "''mercury''"
      and opts = "[(of_char CHR ''r'', Some ''x.pcap''), (of_char CHR ''f'', Some ''out.json''),
           (of_char CHR ''w'', Some ''out.pcap'')]"]
    by simp
qed

lemma getopt_loop_append_Inr:
  "snd (getopt_loop env p (xs @ ys) st) = Inr st'
     \<Longrightarrow> \<exists>st1. snd (getopt_loop env p xs st) = Inr st1 \<and> snd (getopt_loop env p ys st1) = Inr st'"
proof (induction xs arbitrary: st)
  case Nil
  then show ?case by simp
next
  case (Cons x xs)
  from Cons.prems [unfolded append_Cons] obtain st1 where
    s: "snd (switch_case env p (fst x) (snd x) st) = Inr st1"
    and r: "snd (getopt_loop env p (xs @ ys) st1) = Inr st'"
    by (rule getopt_loop_Cons_Inr)
  from Cons.IH [OF r] obtain st2 where a: "snd (getopt_loop env p xs st1) = Inr st2"
    and b: "snd (getopt_loop env p ys st2) = Inr st'"
    by blast
  from s a have "snd (getopt_loop env p (x # xs) st) = Inr st2"
    by (simp add: then_do_cont)
  with b show ?case by blast
qed

lemma getopt_loop_unchanged:
  "snd (getopt_loop env p opts st) = Inr st' \<Longrightarrow> \<forall>x \<in> set opts. fst x \<noteq> 1 \<Longrightarrow>
     ((\<forall>x \<in> set opts. fst x \<noteq> of_char CHR ''f'')
        \<longrightarrow> fingerprint_filename (fst st') = fingerprint_filename (fst st))
   \<and> ((\<forall>x \<in> set opts. fst x \<noteq> of_char CHR ''w'')
        \<longrightarrow> write_filename (fst st') = write_filename (fst st))
   \<and> ((\<forall>x \<in> set opts. fst x \<noteq> of_char CHR ''c'')
        \<longrightarrow> capture_interface (fst st') = capture_interface (fst st))
   \<and> ((\<forall>x \<in> set opts. fst x \<noteq> of_char CHR ''t'')
        \<longrightarrow> num_threads (fst st') = num_threads (fst st))"
proof (induction opts arbitrary: st)
  case Nil
  then show ?case by simp
next
  case (Cons x rest)
  from Cons.prems(1) obtain st1 where
    s: "snd (switch_case env p (fst x) (snd x) st) = Inr st1"
    and r: "snd (getopt_loop env p rest st1) = Inr st'"
    by (rule getopt_loop_Cons_Inr)
  from Cons.prems(2) have x: "fst x \<noteq> 1" and rest: "\<forall>x \<in> set rest. fst x \<noteq> 1" by simp_all
  note f = switch_case_fields [OF s x]
  from Cons.IH [OF r rest] f(2,3,4,5) show ?case by simp
qed

lemma getopt_loop_threads:
  assumes l: "snd (getopt_loop env p (pre @ (of_char CHR ''t'', Some s) # post) st) = Inr st'"
    and post: "\<forall>x \<in> set post. fst x \<noteq> of_char CHR ''t'' \<and> fst x \<noteq> 1"
  shows "num_threads (fst st') = (if s = ''cpu'' then - 1 else fst (strtol env s))"
proof -
  from getopt_loop_append_Inr [OF l]
  obtain st1 where "snd (getopt_loop env p ((of_char CHR ''t'', Some s) # post) st1) = Inr st'"
    by blast
  then obtain st2 where
    "snd (switch_case env p (fst (of_char CHR ''t'' :: nat, Some s))
            (snd (of_char CHR ''t'' :: nat, Some s)) st1) = Inr st2"
    and r: "snd (getopt_loop env p post st2) = Inr st'"
    by (rule getopt_loop_Cons_Inr)
  then have s: "snd (switch_case env p (of_char CHR ''t'') (Some s) st1) = Inr st2"
    by (simp only: fst_conv snd_conv)
  from switch_case_fields(5) [OF s]
  have "num_threads (fst st2) = (if s = ''cpu'' then - 1 else fst (strtol env s))" by simp
  moreover from getopt_loop_unchanged [OF r] post
  have "num_threads (fst st') = num_threads (fst st2)" by simp
  ultimately show ?thesis by simp
qed

text \<open>
  On the command line: when no configuration file is read, the initial configuration names
  no output file, no \<^verbatim>\<open>-f\<close> and no \<^verbatim>\<open>-w\<close> is given, and the last \<^verbatim>\<open>-t\<close> is \<^verbatim>\<open>cpu\<close> or a number
  that is stored as something else than 1, the run is rejected.
\<close>

lemma threads_option_without_output:
  assumes "fingerprint_filename (mercury_config_init env) = None"
    and "write_filename (mercury_config_init env) = None"
    and "\<forall>x \<in> set opts. fst x \<noteq> 1 \<and> fst x \<noteq> of_char CHR ''f'' \<and> fst x \<noteq> of_char CHR ''w''"
    and "opts = pre @ (of_char CHR ''t'', Some s) # post"
    and "\<forall>x \<in> set post. fst x \<noteq> of_char CHR ''t''"
    and "s = ''cpu'' \<or> fst (strtol env s) \<noteq> 1"
  shows "snd (main env progname opts) = 255
           \<and> Stdout (Msg_help progname) \<in> set (fst (main env progname opts))
           \<and> (\<forall>e \<in> set (fst (main env progname opts)). \<not> pipeline_event e)"
proof -
  have "usage_exit progname (main_validate env progname st)"
    if st: "snd (getopt_loop env progname opts (mercury_config_init env, 0)) = Inr st" for st
  proof -
    from getopt_loop_unchanged [OF st] assms(1,2,3)
    have "fingerprint_filename (fst st) = None" and "write_filename (fst st) = None"
      by simp_all
    moreover from assms(3,4,5) have "\<forall>x \<in> set post. fst x \<noteq> of_char CHR ''t'' \<and> fst x \<noteq> 1"
      by simp
    with st [unfolded assms(4)]
    have "num_threads (fst st) = (if s = ''cpu'' then - 1 else fst (strtol env s))"
      by (rule getopt_loop_threads)
    with assms(6) have "num_threads (fst st) \<noteq> 1" by auto
    ultimately show ?thesis by (intro validate_threads)
  qed
  from main_rejected [of env progname opts, OF this] show ?thesis
    by (simp add: quiet_def)
qed

text \<open>
  C9 (as amended). For every run in which the option loop leaves, in the configuration, a
  number of threads other than 1 (the value stored in \<^verbatim>\<open>cfg.num_threads\<close>, from \<^verbatim>\<open>-t\<close> or the
  configuration file) and neither a fingerprint file nor a pcap write file, the process
  prints the usage message and exits with code 255, and no event of the pipeline occurs: no
  thread has been spawned.
\<close>

theorem multiple_threads_need_output:
  assumes "snd (getopt_loop env progname opts (mercury_config_init env, 0)) = Inr st"
    and "num_threads (fst st) \<noteq> 1"
    and "fingerprint_filename (fst st) = None"
    and "write_filename (fst st) = None"
  shows "snd (main env progname opts) = 255
           \<and> Stdout (Msg_help progname) \<in> set (fst (main env progname opts))
           \<and> (\<forall>e \<in> set (fst (main env progname opts)). \<not> pipeline_event e)"
proof -
  have "usage_exit progname (main_validate env progname st')"
    if "snd (getopt_loop env progname opts (mercury_config_init env, 0)) = Inr st'" for st'
  proof -
    from that assms(1) have "st' = st" by simp
    with assms(2,3,4) show ?thesis by (simp add: validate_threads)
  qed
  from main_rejected [of env progname opts, OF this] show ?thesis
    by (simp add: quiet_def)
qed

text \<open>The theorem at \<^verbatim>\<open>-r x.pcap -t 4\<close>.\<close>

theorem multiple_threads_need_output_witness:
  "snd (main good_env ''mercury''
          [(of_char CHR ''r'', Some ''x.pcap''), (of_char CHR ''t'', Some ''4'')]) = 255
   \<and> Stdout (Msg_help ''mercury'') \<in> set (fst (main good_env ''mercury''
          [(of_char CHR ''r'', Some ''x.pcap''), (of_char CHR ''t'', Some ''4'')]))"
proof -
  let ?opts = "[(of_char CHR ''r'', Some ''x.pcap''), (of_char CHR ''t'', Some ''4'')]"
  let ?L = "getopt_loop good_env ''mercury'' ?opts (mercury_config_init good_env, 0)"
  let ?st = "(initial_config\<lparr>read_filename := Some ''x.pcap'', num_threads := 4\<rparr>, 1::int)"
  have l: "?L = ([], Inr ?st)"
    by (simp add: switch_case_def then_do_def env_defs)
  have sl: "snd ?L = Inr ?st"
    by (simp only: l snd_conv)
  have c: "num_threads (fst ?st) \<noteq> 1" "fingerprint_filename (fst ?st) = None"
    "write_filename (fst ?st) = None"
    by (simp_all add: initial_config_def)
  from multiple_threads_need_output [OF sl c] show ?thesis by blast
qed

text \<open>
  C9 as stated fails. In \<^verbatim>\<open>mercury --config mercury.cfg -t 4\<close> the command line asks for 4
  threads and supplies neither \<^verbatim>\<open>-f\<close> nor \<^verbatim>\<open>-w\<close>; with a configuration file that names a
  capture file and a fingerprint file the run starts the pipeline and returns 0. In
  \<^verbatim>\<open>mercury -r x.pcap -t 4294967297\<close> the number of threads asked for is stored as 1, and the
  run starts the pipeline and returns 0.
\<close>

theorem thread_request_counterexample:
  "main output_config_env ''mercury'' [(1, Some ''mercury.cfg''), (of_char CHR ''t'', Some ''4'')] =
     ([Call_mercury_config_read_from_file ''mercury.cfg'', Call_setup_signal_handler, Call_srand,
       Call_output_thread_init four_threads_config, Call_timer_start,
       Call_pkt_proc_new_from_config four_threads_config 0, Call_filename_append ''x.pcap'',
       Call_pcap_file_open ''x.pcap'', Set_t_output_p, Call_pthread_cond_broadcast,
       Call_pthread_create 0, Call_pcap_file_dispatch_pkt_processor 1, Call_pthread_join_reader,
       Call_pcap_file_close, Delete_pkt_processor, Call_timer_stop, Stderr Msg_stopping,
       Set_sig_stop_output, Call_pthread_join_output, Call_destroy_thread_queues], 0)
   \<and> main wrapping_env ''mercury''
       [(of_char CHR ''r'', Some ''x.pcap''), (of_char CHR ''t'', Some ''4294967297'')] =
     ([Call_setup_signal_handler, Call_srand,
       Call_output_thread_init replay_config, Call_timer_start,
       Call_pkt_proc_new_from_config replay_config 0, Call_filename_append ''x.pcap'',
       Call_pcap_file_open ''x.pcap'', Set_t_output_p, Call_pthread_cond_broadcast,
       Call_pthread_create 0, Call_pcap_file_dispatch_pkt_processor 1, Call_pthread_join_reader,
       Call_pcap_file_close, Delete_pkt_processor, Call_timer_stop, Stderr Msg_stopping,
       Set_sig_stop_output, Call_pthread_join_output, Call_destroy_thread_queues], 0)"
  by (simp add: run_defs env_defs output_config_env_def wrapping_env_def
      four_threads_config_def)

lemma validate_too_many_inputs:
  "1 < snd st \<Longrightarrow> main_validate env p st =
     ([Stdout (Msg_error
         ''incompatible arguments read [r] and capture [c] specified on command line''),
       Stdout (Msg_help p)], Inl 255)"
  by (simp add: main_validate_def main_check_inputs_def then_do_def usage_def EXIT_ERR_def)

text \<open>
  C10 (as amended). The options \<^verbatim>\<open>--config\<close> and \<^verbatim>\<open>-d\<close> each count as an input: a command
  line with one of them and, besides, \<^verbatim>\<open>-r\<close>, \<^verbatim>\<open>-c\<close> or the other one of the two ends with the
  usage message and exit code 255, and no event of the pipeline occurs. When the option loop
  itself does not end the run, the usage message is the one about incompatible arguments,
  printed right after the events of the loop.
\<close>

theorem config_and_directory_count_as_inputs:
  assumes "x \<in> set opts" and "y \<in> set opts"
    and "fst x = 1 \<or> fst x = of_char CHR ''d''"
    and "fst y = 1 \<or> fst y = of_char CHR ''d'' \<or> fst y = of_char CHR ''r''
           \<or> fst y = of_char CHR ''c''"
    and "fst x \<noteq> fst y"
  shows "snd (main env progname opts) = 255
           \<and> Stdout (Msg_help progname) \<in> set (fst (main env progname opts))
           \<and> (\<forall>e \<in> set (fst (main env progname opts)). \<not> pipeline_event e)
           \<and> (\<forall>st. snd (getopt_loop env progname opts (mercury_config_init env, 0)) = Inr st
                 \<longrightarrow> main env progname opts =
                   (fst (getopt_loop env progname opts (mercury_config_init env, 0))
                      @ [Stdout (Msg_error
                           ''incompatible arguments read [r] and capture [c] specified on command line''),
                         Stdout (Msg_help progname)], 255))"
proof -
  have many: "1 < snd st"
    if st: "snd (getopt_loop env progname opts (mercury_config_init env, 0)) = Inr st" for st
  proof -
    from assms have "2 \<le> length (filter input_option opts)"
      by (intro two_in_filter [of x _ y]) (auto simp: input_option_def)
    with getopt_loop_num_inputs [OF st] show ?thesis by simp
  qed
  then have "usage_exit progname (main_validate env progname st)"
    if "snd (getopt_loop env progname opts (mercury_config_init env, 0)) = Inr st" for st
    using that by (intro validate_inputs) simp
  from main_rejected [of env progname opts, OF this]
  have "snd (main env progname opts) = 255
           \<and> Stdout (Msg_help progname) \<in> set (fst (main env progname opts))
           \<and> (\<forall>e \<in> set (fst (main env progname opts)). \<not> pipeline_event e)"
    by (simp add: quiet_def)
  moreover have "main env progname opts =
      (fst (getopt_loop env progname opts (mercury_config_init env, 0))
         @ [Stdout (Msg_error
              ''incompatible arguments read [r] and capture [c] specified on command line''),
            Stdout (Msg_help progname)], 255)"
    if st: "snd (getopt_loop env progname opts (mercury_config_init env, 0)) = Inr st" for st
    using main_validate_exit [OF st, where c = 255] validate_too_many_inputs [OF many [OF st]]
    by simp
  ultimately show ?thesis by blast
qed

text \<open>The theorem at \<^verbatim>\<open>-d /tmp -c eth0\<close>, where the option loop prints nothing.\<close>

theorem config_and_directory_count_as_inputs_witness:
  "main good_env ''mercury'' [(of_char CHR ''d'', Some ''/tmp''), (of_char CHR ''c'', Some ''eth0'')] =
     ([Stdout (Msg_error
         ''incompatible arguments read [r] and capture [c] specified on command line''),
       Stdout (Msg_help ''mercury'')], 255)"
proof -
  let ?opts = "[(of_char CHR ''d'', Some ''/tmp''), (of_char CHR ''c'', Some ''eth0'')]"
  let ?L = "getopt_loop good_env ''mercury'' ?opts (mercury_config_init good_env, 0)"
  have l: "?L = ([], Inr (mercury_config_init good_env
                 \<lparr>working_dir := Some ''/tmp'', capture_interface := Some ''eth0''\<rparr>, 2))"
    by (simp add: switch_case_def then_do_def)
  have sl: "snd ?L = Inr (mercury_config_init good_env
                 \<lparr>working_dir := Some ''/tmp'', capture_interface := Some ''eth0''\<rparr>, 2)"
    and fl: "fst ?L = []"
    by (simp_all only: l fst_conv snd_conv)
  have "\<forall>st. snd ?L = Inr st \<longrightarrow> main good_env ''mercury'' ?opts =
      (fst ?L @ [Stdout (Msg_error
         ''incompatible arguments read [r] and capture [c] specified on command line''),
       Stdout (Msg_help ''mercury'')], 255)"
    using config_and_directory_count_as_inputs [where env = good_env and progname = "''mercury''"
      and opts = ?opts
      and x = "(of_char CHR ''d'', Some ''/tmp'')" and y = "(of_char CHR ''c'', Some ''eth0'')",
      THEN conjunct2, THEN conjunct2, THEN conjunct2]
    by simp
  with sl have "main good_env ''mercury'' ?opts =
      (fst ?L @ [Stdout (Msg_error
         ''incompatible arguments read [r] and capture [c] specified on command line''),
       Stdout (Msg_help ''mercury'')], 255)"
    by blast
  then show ?thesis by (simp only: fl append_Nil)
qed

text \<open>
  C10 as stated fails: in \<^verbatim>\<open>mercury -d /tmp -r x.pcap -h\<close> the option \<^verbatim>\<open>-d\<close> comes with
  \<^verbatim>\<open>-r\<close>, and the process ends in the option loop with the help text; the message about
  incompatible arguments is not printed.
\<close>

theorem incompatible_message_counterexample:
  "main good_env ''mercury''
     [(of_char CHR ''d'', Some ''/tmp''), (of_char CHR ''r'', Some ''x.pcap''),
      (of_char CHR ''h'', None)] =
     ([Stdout Msg_title, Stdout (Msg_help ''mercury''), Stdout Msg_extended_help], 255)"
  by (simp add: run_defs env_defs)

section \<open>The number of threads\<close>





section \<open>The order of the shutdown\<close>

lemma shutdown_order_quiet:
  "quiet tr \<Longrightarrow> shutdown_order live stop joined (tr @ rest) = shutdown_order live stop joined rest"
proof (induction tr)
  case Nil
  then show ?case by simp
next
  case (Cons e tr)
  then show ?case by (cases e) (simp_all add: quiet_def)
qed

lemma shutdown_order_quiet_only: "quiet tr \<Longrightarrow> shutdown_order live stop joined tr"
  using shutdown_order_quiet [of tr live stop joined "[]"] by simp

lemma shutdown_order_rejects:
  "\<not> shutdown_order False False False [Call_pthread_create 0, Set_sig_stop_output]"
  "\<not> shutdown_order False False False [Call_pthread_join_output]"
  "\<not> shutdown_order False False False [Set_sig_stop_output, Call_destroy_thread_queues]"
  "\<not> shutdown_order False False False
       [Set_sig_stop_output, Call_pthread_create 0, Call_pcap_file_dispatch_pkt_processor 1,
        Call_pthread_join_reader, Call_pthread_join_output, Call_destroy_thread_queues]"
  "\<not> shutdown_order False False False
       [Set_sig_stop_output, Call_af_packet_bind_and_dispatch cfg, Call_pthread_join_output,
        Call_destroy_thread_queues]"
  by simp_all

text \<open>
  What the check means for the events of a trace that passes it. After the flag, the only
  events of the pipeline are the join of the output thread and the destruction of the queues.
\<close>

lemma shutdown_order_after_flag:
  "shutdown_order live True joined (a @ e # b) \<Longrightarrow> pipeline_event e
     \<Longrightarrow> e = Call_pthread_join_output \<or> e = Call_destroy_thread_queues"
proof (induction a arbitrary: live joined)
  case Nil
  then show ?case by (cases e) simp_all
next
  case (Cons x a)
  then show ?case by (cases x) auto
qed

lemma shutdown_order_flag_suffix:
  "shutdown_order live stop joined (a @ Set_sig_stop_output # b)
     \<Longrightarrow> \<exists>joined'. shutdown_order False True joined' b"
proof (induction a arbitrary: live stop joined)
  case Nil
  then show ?case by auto
next
  case (Cons x a)
  then show ?case by (cases x) auto
qed

lemma shutdown_order_nothing_after_flag:
  assumes "shutdown_order live stop joined (a @ Set_sig_stop_output # b)"
    and "e \<in> set b" and "pipeline_event e"
  shows "e = Call_pthread_join_output \<or> e = Call_destroy_thread_queues"
proof -
  from assms(1) obtain joined' where s: "shutdown_order False True joined' b"
    using shutdown_order_flag_suffix by blast
  from assms(2) obtain c d where "b = c @ e # d" by (auto simp: in_set_conv_decomp)
  with s assms(3) show ?thesis by (auto dest: shutdown_order_after_flag)
qed

text \<open>A reader thread that is live is joined before the flag is set and before the queues are destroyed.\<close>

lemma shutdown_order_live_joined:
  "shutdown_order True stop joined (m @ e # b)
     \<Longrightarrow> e = Set_sig_stop_output \<or> e = Call_destroy_thread_queues
     \<Longrightarrow> Call_pthread_join_reader \<in> set m"
proof (induction m arbitrary: stop joined)
  case Nil
  then show ?case by auto
next
  case (Cons x m)
  then show ?case by (cases x) auto
qed

lemma shutdown_order_created_suffix:
  "shutdown_order live stop joined (a @ Call_pthread_create 0 # rest)
     \<Longrightarrow> \<exists>stop' joined'. shutdown_order True stop' joined' rest"
proof (induction a arbitrary: live stop joined)
  case Nil
  then show ?case by auto
next
  case (Cons x a)
  then show ?case by (cases x) auto
qed

lemma shutdown_order_reader_joined:
  assumes "shutdown_order live stop joined (a @ Call_pthread_create 0 # m @ e # b)"
    and "e = Set_sig_stop_output \<or> e = Call_destroy_thread_queues"
  shows "Call_pthread_join_reader \<in> set m"
proof -
  from shutdown_order_created_suffix [OF assms(1)]
  obtain stop' joined' where "shutdown_order True stop' joined' (m @ e # b)" by blast
  then show ?thesis using assms(2) by (rule shutdown_order_live_joined)
qed

text \<open>The output thread is joined after the flag, and the queues are destroyed after that join.\<close>

lemma shutdown_order_output_joined_after_flag:
  "shutdown_order live False joined (a @ Call_pthread_join_output # b)
     \<Longrightarrow> Set_sig_stop_output \<in> set a"
proof (induction a arbitrary: live joined)
  case Nil
  then show ?case by simp
next
  case (Cons x a)
  then show ?case by (cases x) auto
qed

lemma shutdown_order_destroyed_after_join:
  "shutdown_order live stop False (a @ Call_destroy_thread_queues # b)
     \<Longrightarrow> Call_pthread_join_output \<in> set a"
proof (induction a arbitrary: live stop)
  case Nil
  then show ?case by simp
next
  case (Cons x a)
  then show ?case by (cases x) auto
qed

lemma main_run_shutdown_order: "shutdown_order False False False (fst (main_run env cfg))"
  by (auto simp: main_run_def main_setup_def main_process_packets_def main_shutdown_def
      open_and_dispatch_def pcap_reader_thread_context_init_from_config_def
      pcap_file_processing_thread_func_def then_do_def Let_def
      split: option.splits)

text \<open>
  C1. In every run of \<^verbatim>\<open>main\<close>, \<^verbatim>\<open>sig_stop_output\<close> is set only when the reader thread, if
  one was created, has been joined, and after the flag no reader thread is created and
  nothing is dispatched, so that nothing is enqueued after the flag; the output thread is
  joined only after the flag has been set; and the thread queues are destroyed only after the
  reader thread and the output thread have been joined.
\<close>

theorem shutdown_in_order: "shutdown_order False False False (fst (main env progname opts))"
proof -
  let ?l = "getopt_loop env progname opts (mercury_config_init env, 0)"
  from getopt_loop_step [of progname env opts "(mercury_config_init env, 0)"]
  show ?thesis
  proof
    assume "usage_exit progname ?l"
    then show ?thesis
      by (simp add: usage_exit_def main_loop_exit shutdown_order_quiet_only)
  next
    assume "\<exists>st'. snd ?l = Inr st' \<and> quiet (fst ?l)"
    then obtain st where st: "snd ?l = Inr st" and q: "quiet (fst ?l)" by blast
    show ?thesis
    proof (cases "snd (main_validate env progname st)")
      case (Inl c)
      from q validate_quiet [of env progname st] show ?thesis
        by (simp add: main_validate_exit [OF st Inl] shutdown_order_quiet_only)
    next
      case (Inr u)
      from q validate_quiet [of env progname st] main_run_shutdown_order [of env "fst st"]
      show ?thesis
        by (simp add: main_run_eq [OF st Inr] shutdown_order_quiet)
    qed
  qed
qed

text \<open>The theorem at \<^verbatim>\<open>-r x.pcap\<close>, a run that creates and joins the reader thread.\<close>

theorem shutdown_in_order_witness:
  "main good_env ''mercury'' [(of_char CHR ''r'', Some ''x.pcap'')] =
     ([Call_setup_signal_handler, Call_srand,
       Call_output_thread_init replay_config, Call_timer_start,
       Call_pkt_proc_new_from_config replay_config 0, Call_filename_append ''x.pcap'',
       Call_pcap_file_open ''x.pcap'', Set_t_output_p, Call_pthread_cond_broadcast,
       Call_pthread_create 0, Call_pcap_file_dispatch_pkt_processor 1, Call_pthread_join_reader,
       Call_pcap_file_close, Delete_pkt_processor, Call_timer_stop, Stderr Msg_stopping,
       Set_sig_stop_output, Call_pthread_join_output, Call_destroy_thread_queues], 0)
   \<and> shutdown_order False False False
        (fst (main good_env ''mercury'' [(of_char CHR ''r'', Some ''x.pcap'')]))"
proof -
  have "main good_env ''mercury'' [(of_char CHR ''r'', Some ''x.pcap'')] =
     ([Call_setup_signal_handler, Call_srand,
       Call_output_thread_init replay_config, Call_timer_start,
       Call_pkt_proc_new_from_config replay_config 0, Call_filename_append ''x.pcap'',
       Call_pcap_file_open ''x.pcap'', Set_t_output_p, Call_pthread_cond_broadcast,
       Call_pthread_create 0, Call_pcap_file_dispatch_pkt_processor 1, Call_pthread_join_reader,
       Call_pcap_file_close, Delete_pkt_processor, Call_timer_stop, Stderr Msg_stopping,
       Set_sig_stop_output, Call_pthread_join_output, Call_destroy_thread_queues], 0)"
    by (simp add: run_defs env_defs)
  with shutdown_in_order [of good_env "''mercury''" "[(of_char CHR ''r'', Some ''x.pcap'')]"]
  show ?thesis by simp
qed

lemmas env_defs2 = env_defs unreadable_env_def failing_analysis_env_def missing_config_def
  verbose_config_def verbose_write_config_def

section \<open>Reading a capture file: properties\<close>

text \<open>
  C2, at a capture file that cannot be opened (\<^verbatim>\<open>mercury -r missing.pcap\<close>): the process
  prints the error messages, goes on to the shutdown and returns 0, since \<^verbatim>\<open>main\<close> does not
  look at the status that \<^verbatim>\<open>open_and_dispatch\<close> returns.
\<close>

theorem open_failure_exit_code:
  "main unreadable_env ''mercury'' [(of_char CHR ''r'', Some ''missing.pcap'')] =
     ([Call_setup_signal_handler, Call_srand,
       Call_output_thread_init missing_config, Call_timer_start,
       Call_pkt_proc_new_from_config missing_config 0, Call_filename_append ''missing.pcap'',
       Call_pcap_file_open ''missing.pcap'', Stdout (Msg_open_failed ''missing.pcap''),
       Perror ''could not initialize pcap reader thread context'', Stderr Msg_stopping,
       Set_sig_stop_output, Call_pthread_join_output, Call_destroy_thread_queues], 0)"
  by (simp add: run_defs env_defs2)

text \<open>
  C7 (as amended). If verbose mode and a pcap write file (\<^verbatim>\<open>-w\<close>) are both configured, then
  once the reader thread has been joined \<^verbatim>\<open>open_and_dispatch\<close> closes the file, stops the
  timer and reports the final statistics: the packets and the bytes written, taken from the
  counters of the packet processor, and the elapsed nanoseconds (the byte rate is computed
  from them).
\<close>

theorem verbose_statistics:
  assumes "verbosity cfg \<noteq> 0" and "write_filename cfg \<noteq> None"
    and "Call_pthread_join_reader \<in> set (fst (open_and_dispatch env cfg))"
  shows "\<exists>before. fst (open_and_dispatch env cfg) =
           before @ [Call_pthread_join_reader, Call_pcap_file_close, Delete_pkt_processor,
                     Call_timer_stop,
                     Stdout (Msg_stats (packets_written env) (bytes_written env) (timer_stop env))]"
  using assms
  by (auto simp: open_and_dispatch_def pcap_reader_thread_context_init_from_config_def
      pcap_file_processing_thread_func_def Let_def split: option.splits if_splits)

text \<open>The theorem at a configuration with \<^verbatim>\<open>-r x.pcap -w out.pcap -v\<close>.\<close>

theorem verbose_statistics_witness:
  "fst (open_and_dispatch good_env verbose_write_config) =
     [Call_timer_start, Call_pkt_proc_new_from_config verbose_write_config 0,
      Call_filename_append ''x.pcap'', Call_pcap_file_open ''x.pcap'', Set_t_output_p,
      Call_pthread_cond_broadcast, Call_pthread_create 0,
      Call_pcap_file_dispatch_pkt_processor 1, Call_pthread_join_reader, Call_pcap_file_close,
      Delete_pkt_processor, Call_timer_stop, Stdout (Msg_stats 10 15000 2000)]
   \<and> (\<exists>before. fst (open_and_dispatch good_env verbose_write_config) =
           before @ [Call_pthread_join_reader, Call_pcap_file_close, Delete_pkt_processor,
                     Call_timer_stop, Stdout (Msg_stats 10 15000 2000)])"
proof -
  have t: "fst (open_and_dispatch good_env verbose_write_config) =
     [Call_timer_start, Call_pkt_proc_new_from_config verbose_write_config 0,
      Call_filename_append ''x.pcap'', Call_pcap_file_open ''x.pcap'', Set_t_output_p,
      Call_pthread_cond_broadcast, Call_pthread_create 0,
      Call_pcap_file_dispatch_pkt_processor 1, Call_pthread_join_reader, Call_pcap_file_close,
      Delete_pkt_processor, Call_timer_stop, Stdout (Msg_stats 10 15000 2000)]"
    by (simp add: run_defs env_defs2)
  have v: "verbosity verbose_write_config \<noteq> 0" "write_filename verbose_write_config \<noteq> None"
    by (simp_all add: env_defs2)
  have j: "Call_pthread_join_reader \<in> set (fst (open_and_dispatch good_env verbose_write_config))"
    by (simp add: t)
  have c: "packets_written good_env = 10" "bytes_written good_env = 15000"
    "timer_stop good_env = 2000"
    by (simp_all add: good_env_def)
  from verbose_statistics [OF v j] have "\<exists>before. fst (open_and_dispatch good_env verbose_write_config) =
           before @ [Call_pthread_join_reader, Call_pcap_file_close, Delete_pkt_processor,
                     Call_timer_stop, Stdout (Msg_stats 10 15000 2000)]"
    by (simp only: c)
  with t show ?thesis by blast
qed

text \<open>
  C7 as stated fails: \<^verbatim>\<open>mercury -r x.pcap -v\<close> configures verbose mode and no write file;
  the pipeline ends and no statistics are printed, as line 149 asks for both.
\<close>

theorem verbose_only_counterexample:
  "main good_env ''mercury'' [(of_char CHR ''r'', Some ''x.pcap''), (of_char CHR ''v'', None)] =
     ([Call_setup_signal_handler, Call_srand,
       Call_output_thread_init verbose_config, Call_timer_start,
       Call_pkt_proc_new_from_config verbose_config 0, Call_filename_append ''x.pcap'',
       Call_pcap_file_open ''x.pcap'', Set_t_output_p, Call_pthread_cond_broadcast,
       Call_pthread_create 0, Call_pcap_file_dispatch_pkt_processor 1, Call_pthread_join_reader,
       Call_pcap_file_close, Delete_pkt_processor, Call_timer_stop, Stderr Msg_stopping,
       Set_sig_stop_output, Call_pthread_join_output, Call_destroy_thread_queues], 0)"
  by (simp add: run_defs env_defs2)

section \<open>The loop count and the option --adaptive\<close>

lemma getopt_loop_quiet: "quiet (fst (getopt_loop env p opts st))"
  using getopt_loop_step [of p env opts st] by (auto simp: usage_exit_def)

lemma main_quiet_exit:
  assumes "snd (getopt_loop env p opts (mercury_config_init env, 0)) = Inr st"
    and "snd (main_validate env p st) = Inl c"
  shows "snd (main env p opts) = c" and "\<forall>e \<in> set (fst (main env p opts)). \<not> pipeline_event e"
  using getopt_loop_quiet [of env p opts "(mercury_config_init env, 0)"]
    validate_quiet [of env p st]
  by (simp_all add: main_validate_exit [OF assms] quiet_def Ball_def)

lemma validate_loop_count:
  assumes "loop_count (fst st) < 1"
  shows "\<exists>c. snd (main_validate env p st) = Inl c \<and> c \<noteq> 0"
  using assms
  by (auto simp: main_validate_def main_check_inputs_def main_check_outputs_def
      main_analysis_init_def main_check_loop_count_def then_do_def usage_def
      EXIT_ERR_def EXIT_FAILURE_def)

lemma validate_loop_count_reported:
  assumes "loop_count (fst st) < 1" and "snd st = 1"
    and "fingerprint_filename (fst st) = None \<or> write_filename (fst st) = None"
    and "num_threads (fst st) = 1 \<or> fingerprint_filename (fst st) \<noteq> None
           \<or> write_filename (fst st) \<noteq> None"
    and "analysis (fst st) = analysis_off \<or> analysis_init env \<noteq> - 1"
  shows "main_validate env p st =
     ((if analysis (fst st) \<noteq> analysis_off then [Call_analysis_init] else [])
        @ [Stdout (Msg_error ''Invalid loop count, it should be >= 1''), Stdout (Msg_help p)],
      Inl 255)"
  using assms
  by (auto simp: main_validate_def main_check_inputs_def main_check_outputs_def
      main_analysis_init_def main_check_loop_count_def then_do_def usage_def
      EXIT_ERR_def)

text \<open>
  C4 (as amended). For every configuration with \<^verbatim>\<open>loop_count < 1\<close> that the option loop
  leaves, the process exits with a non-zero exit code and no event of the pipeline occurs.
  It reports the invalid loop count, with the usage message and exit code 255, when the
  checks before that one pass: exactly one input, not both \<^verbatim>\<open>-f\<close> and \<^verbatim>\<open>-w\<close>, one thread or an
  output file, and an analysis engine that is off or initialised.
\<close>

theorem invalid_loop_count:
  assumes "snd (getopt_loop env progname opts (mercury_config_init env, 0)) = Inr st"
    and "loop_count (fst st) < 1"
  shows "snd (main env progname opts) \<noteq> 0
           \<and> (\<forall>e \<in> set (fst (main env progname opts)). \<not> pipeline_event e)
           \<and> (snd st = 1
                \<and> (fingerprint_filename (fst st) = None \<or> write_filename (fst st) = None)
                \<and> (num_threads (fst st) = 1 \<or> fingerprint_filename (fst st) \<noteq> None
                      \<or> write_filename (fst st) \<noteq> None)
                \<and> (analysis (fst st) = analysis_off \<or> analysis_init env \<noteq> - 1)
              \<longrightarrow> main env progname opts =
                    (fst (getopt_loop env progname opts (mercury_config_init env, 0))
                       @ (if analysis (fst st) \<noteq> analysis_off then [Call_analysis_init] else [])
                       @ [Stdout (Msg_error ''Invalid loop count, it should be >= 1''),
                          Stdout (Msg_help progname)], 255))"
proof -
  from validate_loop_count [OF assms(2), of env progname]
  obtain c where c: "snd (main_validate env progname st) = Inl c" "c \<noteq> 0" by blast
  from main_quiet_exit [OF assms(1) c(1)] c(2)
  have "snd (main env progname opts) \<noteq> 0"
    and "\<forall>e \<in> set (fst (main env progname opts)). \<not> pipeline_event e"
    by simp_all
  moreover have "main env progname opts =
      (fst (getopt_loop env progname opts (mercury_config_init env, 0))
         @ (if analysis (fst st) \<noteq> analysis_off then [Call_analysis_init] else [])
         @ [Stdout (Msg_error ''Invalid loop count, it should be >= 1''),
            Stdout (Msg_help progname)], 255)"
    if "snd st = 1"
      and "fingerprint_filename (fst st) = None \<or> write_filename (fst st) = None"
      and "num_threads (fst st) = 1 \<or> fingerprint_filename (fst st) \<noteq> None
             \<or> write_filename (fst st) \<noteq> None"
      and "analysis (fst st) = analysis_off \<or> analysis_init env \<noteq> - 1"
  proof -
    note v = validate_loop_count_reported [OF assms(2) that, of progname]
    from v have "snd (main_validate env progname st) = Inl 255" by simp
    from main_validate_exit [OF assms(1) this] v show ?thesis by simp
  qed
  ultimately show ?thesis by blast
qed

text \<open>The theorem at \<^verbatim>\<open>-r x.pcap -p 0\<close>.\<close>

theorem invalid_loop_count_witness:
  "main good_env ''mercury'' [(of_char CHR ''r'', Some ''x.pcap''), (of_char CHR ''p'', Some ''0'')] =
     ([Stdout (Msg_error ''Invalid loop count, it should be >= 1''),
       Stdout (Msg_help ''mercury'')], 255)"
proof -
  let ?opts = "[(of_char CHR ''r'', Some ''x.pcap''), (of_char CHR ''p'', Some ''0'')]"
  let ?L = "getopt_loop good_env ''mercury'' ?opts (mercury_config_init good_env, 0)"
  let ?st = "(initial_config\<lparr>read_filename := Some ''x.pcap'', loop_count := 0\<rparr>, 1::int)"
  have l: "?L = ([], Inr ?st)"
    by (simp add: switch_case_def then_do_def env_defs)
  have sl: "snd ?L = Inr ?st" and fl: "fst ?L = []"
    by (simp_all only: l fst_conv snd_conv)
  have lc: "loop_count (fst ?st) < 1" by (simp add: initial_config_def)
  have pre: "snd ?st = 1
       \<and> (fingerprint_filename (fst ?st) = None \<or> write_filename (fst ?st) = None)
       \<and> (num_threads (fst ?st) = 1 \<or> fingerprint_filename (fst ?st) \<noteq> None
             \<or> write_filename (fst ?st) \<noteq> None)
       \<and> (analysis (fst ?st) = analysis_off \<or> analysis_init good_env \<noteq> - 1)"
    by (simp add: initial_config_def)
  from invalid_loop_count [OF sl lc] pre
  have "main good_env ''mercury'' ?opts =
      (fst ?L @ (if analysis (fst ?st) \<noteq> analysis_off then [Call_analysis_init] else [])
         @ [Stdout (Msg_error ''Invalid loop count, it should be >= 1''),
            Stdout (Msg_help ''mercury'')], 255)"
    by blast
  moreover have "analysis (fst ?st) = analysis_off" by (simp add: initial_config_def)
  ultimately show ?thesis by (simp only: fl append_Nil if_False simp_thms)
qed

text \<open>
  C4 as stated fails. In \<^verbatim>\<open>mercury -p 0\<close> the loop count is 0 and the process reports the
  missing input, not the loop count. In \<^verbatim>\<open>mercury -r x.pcap -a -p 0\<close> with an analysis engine
  that cannot be initialised, \<^verbatim>\<open>main\<close> returns \<^verbatim>\<open>EXIT_FAILURE\<close> at line 471 and reports
  nothing about the loop count.
\<close>

theorem loop_count_report_counterexample:
  "main good_env ''mercury'' [(of_char CHR ''p'', Some ''0'')] =
     ([Stdout (Msg_error ''neither read [r] nor capture [c] specified on command line''),
       Stdout (Msg_help ''mercury'')], 255)
   \<and> main failing_analysis_env ''mercury''
       [(of_char CHR ''r'', Some ''x.pcap''), (of_char CHR ''a'', None),
        (of_char CHR ''p'', Some ''0'')] =
     ([Call_analysis_init], 1)"
  by (simp add: run_defs env_defs2)

lemma getopt_loop_set_no_config:
  "snd (getopt_loop env p opts st) = Inr st' \<Longrightarrow> \<forall>x \<in> set opts. fst x \<noteq> 1 \<Longrightarrow>
     ((write_filename (fst st) \<noteq> None \<or> (\<exists>x \<in> set opts. fst x = of_char CHR ''w''))
        \<longrightarrow> write_filename (fst st') \<noteq> None)
   \<and> ((capture_interface (fst st) \<noteq> None \<or> (\<exists>x \<in> set opts. fst x = of_char CHR ''c''))
        \<longrightarrow> capture_interface (fst st') \<noteq> None)
   \<and> ((adaptive (fst st) = 1 \<or> (\<exists>x \<in> set opts. fst x = 0))
        \<longrightarrow> adaptive (fst st') = 1)"
proof (induction opts arbitrary: st)
  case Nil
  then show ?case by simp
next
  case (Cons x rest)
  from Cons.prems(1) obtain st1 where
    s: "snd (switch_case env p (fst x) (snd x) st) = Inr st1"
    and r: "snd (getopt_loop env p rest st1) = Inr st'"
    by (rule getopt_loop_Cons_Inr)
  from Cons.prems(2) have x: "fst x \<noteq> 1" and rest: "\<forall>x \<in> set rest. fst x \<noteq> 1" by simp_all
  note f = switch_case_fields [OF s x]
  note a = switch_case_required_argument [OF s]
  from Cons.IH [OF r rest] f(2,4,6) a show ?case by auto
qed

lemma validate_adaptive_rejected:
  assumes "0 < adaptive (fst st)"
    and "write_filename (fst st) = None \<or> capture_interface (fst st) = None"
  shows "\<exists>c. snd (main_validate env p st) = Inl c \<and> c \<noteq> 0
           \<and> (Stdout (Msg_help p) \<in> set (fst (main_validate env p st))
                \<or> (Call_analysis_init \<in> set (fst (main_validate env p st))
                     \<and> analysis_init env = - 1 \<and> c = 1))"
  using assms
  by (auto simp: main_validate_def main_check_inputs_def main_check_outputs_def
      main_analysis_init_def main_check_loop_count_def main_check_adaptive_def then_do_def
      usage_def EXIT_ERR_def EXIT_FAILURE_def)

lemma validate_adaptive_accepted:
  assumes "0 < adaptive (fst st)" and "write_filename (fst st) \<noteq> None"
    and "capture_interface (fst st) \<noteq> None" and "snd (main_validate env p st) = Inr u"
  shows "Call_set_percent_accept 30 \<in> set (fst (main_validate env p st))"
  using assms
  by (auto simp: main_validate_def main_check_inputs_def main_check_outputs_def
      main_analysis_init_def main_check_loop_count_def main_check_adaptive_def then_do_def
      usage_def split: if_splits)

text \<open>
  On the command line, when no configuration file is read: \<^verbatim>\<open>--adaptive\<close> without \<^verbatim>\<open>-c\<close> or
  without \<^verbatim>\<open>-w\<close> ends the run before the pipeline, and \<^verbatim>\<open>--adaptive\<close> with both sets the
  percentage before the first event of the pipeline.
\<close>

lemma adaptive_without_capture_and_write:
  assumes "(0, None) \<in> set opts" and "\<forall>x \<in> set opts. fst x \<noteq> 1"
    and "(capture_interface (mercury_config_init env) = None
            \<and> (\<forall>x \<in> set opts. fst x \<noteq> of_char CHR ''c''))
         \<or> (write_filename (mercury_config_init env) = None
            \<and> (\<forall>x \<in> set opts. fst x \<noteq> of_char CHR ''w''))"
  shows "snd (main env p opts) \<noteq> 0
           \<and> (\<forall>e \<in> set (fst (main env p opts)). \<not> pipeline_event e)
           \<and> (Stdout (Msg_help p) \<in> set (fst (main env p opts))
                \<or> (Call_analysis_init \<in> set (fst (main env p opts))
                     \<and> analysis_init env = - 1 \<and> snd (main env p opts) = 1))"
proof -
  let ?l = "getopt_loop env p opts (mercury_config_init env, 0)"
  from getopt_loop_step [of p env opts "(mercury_config_init env, 0)"]
  show ?thesis
  proof
    assume "usage_exit p ?l"
    then show ?thesis by (simp add: usage_exit_def main_loop_exit quiet_def)
  next
    assume "\<exists>st'. snd ?l = Inr st' \<and> quiet (fst ?l)"
    then obtain st where st: "snd ?l = Inr st" by blast
    from assms(1) have z: "\<exists>x \<in> set opts. fst x = 0" by force
    from getopt_loop_set_no_config [OF st assms(2)] z have "adaptive (fst st) = 1" by simp
    then have a: "0 < adaptive (fst st)" by simp
    from getopt_loop_unchanged [OF st assms(2)] assms(3)
    have "write_filename (fst st) = None \<or> capture_interface (fst st) = None" by auto
    from validate_adaptive_rejected [OF a this, of env p]
    obtain c where c: "snd (main_validate env p st) = Inl c" "c \<noteq> 0"
      and m: "Stdout (Msg_help p) \<in> set (fst (main_validate env p st))
                \<or> (Call_analysis_init \<in> set (fst (main_validate env p st))
                     \<and> analysis_init env = - 1 \<and> c = 1)"
      by blast
    from main_quiet_exit [OF st c(1)] c(2) m main_validate_exit [OF st c(1)]
    show ?thesis by auto
  qed
qed

lemma adaptive_with_capture_and_write:
  assumes "(0, None) \<in> set opts" and "\<forall>x \<in> set opts. fst x \<noteq> 1"
    and "(of_char CHR ''c'', Some a) \<in> set opts" and "(of_char CHR ''w'', Some b) \<in> set opts"
    and "list_ex pipeline_event (fst (main env p opts))"
  shows "Call_set_percent_accept 30
           \<in> set (takeWhile (\<lambda>e. \<not> pipeline_event e) (fst (main env p opts)))"
proof -
  let ?l = "getopt_loop env p opts (mercury_config_init env, 0)"
  have nq: "\<not> quiet (fst (main env p opts))"
    using assms(5) by (simp add: quiet_def list_ex_iff)
  from getopt_loop_step [of p env opts "(mercury_config_init env, 0)"]
  show ?thesis
  proof
    assume "usage_exit p ?l"
    with nq show ?thesis by (simp add: usage_exit_def main_loop_exit)
  next
    assume "\<exists>st'. snd ?l = Inr st' \<and> quiet (fst ?l)"
    then obtain st where st: "snd ?l = Inr st" and q: "quiet (fst ?l)" by blast
    from assms(1,3,4) have z: "\<exists>x \<in> set opts. fst x = 0"
      "\<exists>x \<in> set opts. fst x = of_char CHR ''c''" "\<exists>x \<in> set opts. fst x = of_char CHR ''w''"
      by force+
    from getopt_loop_set_no_config [OF st assms(2)] z
    have a: "0 < adaptive (fst st)" and w: "write_filename (fst st) \<noteq> None"
      and c: "capture_interface (fst st) \<noteq> None"
      by simp_all
    show ?thesis
    proof (cases "snd (main_validate env p st)")
      case (Inl code)
      from main_quiet_exit(2) [OF st Inl] nq show ?thesis by (simp add: quiet_def)
    next
      case (Inr u)
      from validate_adaptive_accepted [OF a w c Inr]
      have s: "Call_set_percent_accept 30 \<in> set (fst (main_validate env p st))" .
      have "takeWhile (\<lambda>e. \<not> pipeline_event e) (fst (main env p opts)) =
              fst ?l @ fst (main_validate env p st)
                @ takeWhile (\<lambda>e. \<not> pipeline_event e) (fst (main_run env (fst st)))"
        using q validate_quiet [of env p st]
        by (simp add: main_run_eq [OF st Inr] quiet_def takeWhile_append2)
      with s show ?thesis by simp
    qed
  qed
qed

text \<open>
  C5 (as amended). If adaptive mode is set in the configuration that the option loop leaves
  (\<^verbatim>\<open>--adaptive\<close> sets \<^verbatim>\<open>cfg.adaptive\<close> to 1) and that configuration lacks a capture interface
  or a pcap write file, whether from the command line or from the configuration file, the
  process exits with a non-zero exit code and no event of the pipeline occurs; it prints the
  usage message, unless the analysis engine failed to initialise, where \<^verbatim>\<open>main\<close> returns
  \<^verbatim>\<open>EXIT_FAILURE\<close> without one. If the configuration has both, then
  \<^verbatim>\<open>set_percent_accept(30)\<close> is called before the first event of the pipeline, whenever there
  is one.
\<close>

theorem adaptive_option:
  assumes "snd (getopt_loop env progname opts (mercury_config_init env, 0)) = Inr st"
    and "0 < adaptive (fst st)"
  shows "(write_filename (fst st) = None \<or> capture_interface (fst st) = None
          \<longrightarrow> snd (main env progname opts) \<noteq> 0
             \<and> (\<forall>e \<in> set (fst (main env progname opts)). \<not> pipeline_event e)
             \<and> (Stdout (Msg_help progname) \<in> set (fst (main env progname opts))
                  \<or> (Call_analysis_init \<in> set (fst (main env progname opts))
                       \<and> analysis_init env = - 1 \<and> snd (main env progname opts) = 1)))
       \<and> (write_filename (fst st) \<noteq> None \<and> capture_interface (fst st) \<noteq> None
            \<and> list_ex pipeline_event (fst (main env progname opts))
          \<longrightarrow> Call_set_percent_accept 30
                \<in> set (takeWhile (\<lambda>e. \<not> pipeline_event e) (fst (main env progname opts))))"
proof -
  let ?l = "getopt_loop env progname opts (mercury_config_init env, 0)"
  have q: "quiet (fst ?l)" by (rule getopt_loop_quiet)
  have first: "snd (main env progname opts) \<noteq> 0
             \<and> (\<forall>e \<in> set (fst (main env progname opts)). \<not> pipeline_event e)
             \<and> (Stdout (Msg_help progname) \<in> set (fst (main env progname opts))
                  \<or> (Call_analysis_init \<in> set (fst (main env progname opts))
                       \<and> analysis_init env = - 1 \<and> snd (main env progname opts) = 1))"
    if "write_filename (fst st) = None \<or> capture_interface (fst st) = None"
  proof -
    from validate_adaptive_rejected [OF assms(2) that, of env progname]
    obtain c where c: "snd (main_validate env progname st) = Inl c" "c \<noteq> 0"
      and m: "Stdout (Msg_help progname) \<in> set (fst (main_validate env progname st))
                \<or> (Call_analysis_init \<in> set (fst (main_validate env progname st))
                     \<and> analysis_init env = - 1 \<and> c = 1)"
      by blast
    from main_quiet_exit [OF assms(1) c(1)] c(2) m main_validate_exit [OF assms(1) c(1)]
    show ?thesis by auto
  qed
  have second: "Call_set_percent_accept 30
                \<in> set (takeWhile (\<lambda>e. \<not> pipeline_event e) (fst (main env progname opts)))"
    if w: "write_filename (fst st) \<noteq> None" and c: "capture_interface (fst st) \<noteq> None"
      and p: "list_ex pipeline_event (fst (main env progname opts))"
  proof (cases "snd (main_validate env progname st)")
    case (Inl code)
    from main_quiet_exit(2) [OF assms(1) Inl] p show ?thesis by (simp add: list_ex_iff)
  next
    case (Inr u)
    from validate_adaptive_accepted [OF assms(2) w c Inr]
    have s: "Call_set_percent_accept 30 \<in> set (fst (main_validate env progname st))" .
    have "takeWhile (\<lambda>e. \<not> pipeline_event e) (fst (main env progname opts)) =
            fst ?l @ fst (main_validate env progname st)
              @ takeWhile (\<lambda>e. \<not> pipeline_event e) (fst (main_run env (fst st)))"
      using q validate_quiet [of env progname st]
      by (simp add: main_run_eq [OF assms(1) Inr] quiet_def takeWhile_append2)
    with s show ?thesis by simp
  qed
  from first second show ?thesis by blast
qed

text \<open>The theorem at \<^verbatim>\<open>-r x.pcap --adaptive\<close> and at \<^verbatim>\<open>-c eth0 -w out.pcap --adaptive\<close>.\<close>

theorem adaptive_option_witness:
  "snd (main good_env ''mercury'' [(of_char CHR ''r'', Some ''x.pcap''), (0, None)]) \<noteq> 0
   \<and> Stdout (Msg_help ''mercury'')
       \<in> set (fst (main good_env ''mercury'' [(of_char CHR ''r'', Some ''x.pcap''), (0, None)]))
   \<and> Call_set_percent_accept 30
       \<in> set (takeWhile (\<lambda>e. \<not> pipeline_event e)
                (fst (main good_env ''mercury''
                   [(of_char CHR ''c'', Some ''eth0''), (of_char CHR ''w'', Some ''out.pcap''),
                    (0, None)])))"
proof -
  let ?o1 = "[(of_char CHR ''r'', Some ''x.pcap''), (0, None)] :: getopt_result list"
  let ?o2 = "[(of_char CHR ''c'', Some ''eth0''), (of_char CHR ''w'', Some ''out.pcap''),
      (0, None)] :: getopt_result list"
  let ?s1 = "(initial_config\<lparr>read_filename := Some ''x.pcap'', adaptive := 1\<rparr>, 1::int)"
  let ?s2 = "(adaptive_capture_config, 1::int)"
  have l1: "getopt_loop good_env ''mercury'' ?o1 (mercury_config_init good_env, 0) = ([], Inr ?s1)"
    by (simp add: switch_case_def then_do_def env_defs)
  have l2: "getopt_loop good_env ''mercury'' ?o2 (mercury_config_init good_env, 0) = ([], Inr ?s2)"
    by (simp add: switch_case_def then_do_def env_defs adaptive_capture_config_def)
  have s1: "snd (getopt_loop good_env ''mercury'' ?o1 (mercury_config_init good_env, 0)) = Inr ?s1"
    by (simp only: l1 snd_conv)
  have s2: "snd (getopt_loop good_env ''mercury'' ?o2 (mercury_config_init good_env, 0)) = Inr ?s2"
    by (simp only: l2 snd_conv)
  have a1: "0 < adaptive (fst ?s1)" "write_filename (fst ?s1) = None"
    by (simp_all add: initial_config_def)
  have a2: "0 < adaptive (fst ?s2)" "write_filename (fst ?s2) \<noteq> None"
    "capture_interface (fst ?s2) \<noteq> None"
    by (simp_all add: adaptive_capture_config_def initial_config_def)
  have i: "analysis_init good_env \<noteq> - 1" by (simp add: good_env_def)
  have p: "list_ex pipeline_event (fst (main good_env ''mercury'' ?o2))"
    by (simp add: run_defs env_defs)
  from adaptive_option [OF s1 a1(1)] a1(2) i
  have "snd (main good_env ''mercury'' ?o1) \<noteq> 0
     \<and> Stdout (Msg_help ''mercury'') \<in> set (fst (main good_env ''mercury'' ?o1))"
    by blast
  moreover from adaptive_option [OF s2 a2(1)] a2(2,3) p
  have "Call_set_percent_accept 30
       \<in> set (takeWhile (\<lambda>e. \<not> pipeline_event e) (fst (main good_env ''mercury'' ?o2)))"
    by blast
  ultimately show ?thesis by blast
qed

text \<open>
  C5 as stated fails. In \<^verbatim>\<open>mercury -r x.pcap -a --adaptive\<close> with an analysis engine that
  cannot be initialised, \<^verbatim>\<open>--adaptive\<close> comes without \<^verbatim>\<open>-c\<close> and \<^verbatim>\<open>-w\<close>, and \<^verbatim>\<open>main\<close> returns
  \<^verbatim>\<open>EXIT_FAILURE\<close> at line 471 without printing the usage message. In
  \<^verbatim>\<open>mercury --config mercury.cfg --adaptive\<close> the command line has neither \<^verbatim>\<open>-c\<close> nor \<^verbatim>\<open>-w\<close>;
  with a configuration file that names an interface and a pcap write file the run captures
  and returns 0.
\<close>

theorem adaptive_usage_counterexample:
  "main failing_analysis_env ''mercury''
     [(of_char CHR ''r'', Some ''x.pcap''), (of_char CHR ''a'', None), (0, None)] =
     ([Call_analysis_init], 1)
   \<and> main capture_config_env ''mercury'' [(1, Some ''mercury.cfg''), (0, None)] =
     ([Call_mercury_config_read_from_file ''mercury.cfg'', Call_set_percent_accept 30,
       Call_setup_signal_handler, Call_srand, Call_ring_limits_init (Finite (1 / 8)),
       Call_output_thread_init adaptive_capture_config,
       Call_af_packet_bind_and_dispatch adaptive_capture_config, Stderr Msg_stopping,
       Set_sig_stop_output, Call_pthread_join_output, Call_destroy_thread_queues], 0)"
  by (simp add: run_defs env_defs2 capture_config_env_def adaptive_capture_config_def)

section \<open>Runs that cannot open the capture file\<close>

lemma switch_case_no_open_failure:
  "\<forall>e \<in> set (fst (switch_case env p c optarg st)). \<not> open_failure e"
  unfolding switch_case_def Let_def
  by (auto simp: usage_def then_do_def split: option.splits list.splits)

lemma getopt_loop_no_open_failure:
  "\<forall>e \<in> set (fst (getopt_loop env p opts st)). \<not> open_failure e"
proof (induction opts arbitrary: st)
  case Nil
  then show ?case by simp
next
  case (Cons x rest)
  show ?case
  proof (cases "snd (switch_case env p (fst x) (snd x) st)")
    case (Inl c)
    with switch_case_no_open_failure [of env p "fst x" "snd x" st] show ?thesis
      by (simp add: then_do_exit)
  next
    case (Inr st1)
    with switch_case_no_open_failure [of env p "fst x" "snd x" st] Cons.IH [of st1]
    show ?thesis
      by (auto simp: then_do_cont)
  qed
qed

lemma validate_no_open_failure:
  "\<forall>e \<in> set (fst (main_validate env p st)). \<not> open_failure e"
  by (auto simp: main_validate_def main_check_inputs_def main_check_outputs_def
      main_analysis_init_def main_check_loop_count_def main_check_adaptive_def
      then_do_def usage_def)

lemma init_open_failure:
  "(\<forall>e \<in> set (fst (pcap_reader_thread_context_init_from_config env cfg n)). \<not> open_failure e)
   \<or> fst (snd (pcap_reader_thread_context_init_from_config env cfg n)) \<noteq> status_ok"
  by (simp add: pcap_reader_thread_context_init_from_config_def Let_def split: option.splits)

lemma open_and_dispatch_open_failure:
  "(\<forall>e \<in> set (fst (open_and_dispatch env cfg)). \<not> open_failure e)
   \<or> (\<exists>s. snd (open_and_dispatch env cfg) = Inr s)"
proof (cases "pcap_reader_thread_context_init_from_config env cfg 0")
  case (fields ev st tc)
  with init_open_failure [of env cfg 0] show ?thesis
    by (auto simp: open_and_dispatch_def pcap_file_processing_thread_func_def)
qed

lemma process_packets_open_failure:
  "(\<forall>e \<in> set (fst (main_process_packets env cfg)). \<not> open_failure e)
   \<or> snd (main_process_packets env cfg) = Inr ()"
proof (cases "open_and_dispatch env cfg")
  case (Pair tr r)
  with open_and_dispatch_open_failure [of env cfg] show ?thesis
    by (auto simp: main_process_packets_def then_do_def split: option.splits sum.splits)
qed

lemma main_run_open_failure:
  "(\<forall>e \<in> set (fst (main_run env cfg)). \<not> open_failure e) \<or> snd (main_run env cfg) = Inr 0"
proof -
  define cfg' where
    "cfg' = (if num_threads cfg = - 1 then cfg\<lparr>num_threads := get_nprocs env\<rparr> else cfg)"
  have s: "snd (main_setup env cfg) = Inr cfg'"
    and fs: "\<forall>e \<in> set (fst (main_setup env cfg)). \<not> open_failure e"
    by (auto simp: main_setup_def Let_def cfg'_def)
  have sh: "snd (main_shutdown cfg') = Inr 0"
    and fsh: "\<forall>e \<in> set (fst (main_shutdown cfg')). \<not> open_failure e"
    by (simp_all add: main_shutdown_def)
  from process_packets_open_failure [of env cfg'] show ?thesis
  proof
    assume q: "\<forall>e \<in> set (fst (main_process_packets env cfg')). \<not> open_failure e"
    show ?thesis
    proof (cases "snd (main_process_packets env cfg')")
      case (Inl c)
      with s fs q show ?thesis
        unfolding main_run_def by (auto simp: then_do_cont then_do_exit)
    next
      case (Inr u)
      with s fs q sh fsh show ?thesis
        unfolding main_run_def by (auto simp: then_do_cont)
    qed
  next
    assume "snd (main_process_packets env cfg') = Inr ()"
    with s sh show ?thesis
      unfolding main_run_def by (simp add: then_do_cont)
  qed
qed

text \<open>
  Every run that prints the message of line 82 ends with exit code 0, whatever the command
  line and the environment.
\<close>

lemma open_failure_returns_zero:
  assumes "e \<in> set (fst (main env p opts))" and "open_failure e"
  shows "snd (main env p opts) = 0"
proof -
  let ?l = "getopt_loop env p opts (mercury_config_init env, 0)"
  note loop = getopt_loop_no_open_failure [of env p opts "(mercury_config_init env, 0)"]
  show ?thesis
  proof (cases "snd ?l")
    case (Inl c)
    with assms loop show ?thesis by (simp add: main_loop_exit)
  next
    case st: (Inr st)
    note val = validate_no_open_failure [of env p st]
    show ?thesis
    proof (cases "snd (main_validate env p st)")
      case (Inl c)
      with assms st loop val show ?thesis by (auto simp: main_validate_exit)
    next
      case (Inr u)
      from assms loop val have "e \<in> set (fst (main_run env (fst st)))"
        by (auto simp: main_run_eq [OF st Inr])
      with assms(2) main_run_open_failure [of env "fst st"]
      have "snd (main_run env (fst st)) = Inr 0" by blast
      then show ?thesis by (simp add: main_run_eq [OF st Inr])
    qed
  qed
qed

end
